theory Spec2Isabelle
  imports Complex_Main
begin

section \<open>Common notions\<close>

text \<open>
  The two notebooks are Python cells over an external tensor framework. Every exception
  that a modelled cell can end with is a value of \<open>error\<close>; a computation that may
  raise returns \<open>error + 'a\<close>, with \<open>Inl\<close> for the exception.
\<close>

datatype error =
    SyntaxError
  | NameError string
  | IndexError
  | AssertionError string
  | FrameworkError string

text \<open>
  Tensors that live across statements and are mutated in place (model weights, the
  optimised image, batches) are cells of a store, addressed by \<open>addr\<close>.
\<close>

type_synonym addr = nat

section \<open>Photo to map: the train loop\<close>

text \<open>
  \<^verbatim>\<open>opt.step()\<close> of an optimizer constructed over a list of tensors: it walks that list
  and writes a new value into each tensor that has a gradient. The update rule
  (Adam's moment estimates, plain gradient descent) is the framework's; it is the
  parameter \<open>rule\<close>, which also threads the optimizer's own state \<open>'o\<close> and may raise.
  An exception ends the walk; what was written before it stays written.
\<close>

fun opt_step ::
  "('o \<Rightarrow> 't \<Rightarrow> 't \<Rightarrow> error + 'o \<times> 't) \<Rightarrow> addr list \<Rightarrow> (addr \<Rightarrow> 't option) \<Rightarrow>
   'o \<times> (addr \<Rightarrow> 't) \<Rightarrow> ('o \<times> (addr \<Rightarrow> 't)) \<times> error option" where
  "opt_step rule [] grads (ost, store) = ((ost, store), None)"
| "opt_step rule (p # ps) grads (ost, store) =
     (case grads p of
        None \<Rightarrow> opt_step rule ps grads (ost, store)
      | Some g \<Rightarrow>
          (case rule ost (store p) g of
             Inl e \<Rightarrow> ((ost, store), Some e)
           | Inr (ost', v) \<Rightarrow> opt_step rule ps grads (ost', store(p := v))))"

text \<open>What \<^verbatim>\<open>writer.add_scalar\<close> and \<^verbatim>\<open>writer.add_image\<close> append to the log: tag and
  global step, and for a scalar its value.\<close>

datatype event = Scalar string real nat | Image string nat

fun global_step :: "event \<Rightarrow> nat" where
  "global_step (Scalar tag v n) = n"
| "global_step (Image tag n) = n"

fun is_scalar :: "event \<Rightarrow> bool" where
  "is_scalar (Scalar tag v n) = True"
| "is_scalar (Image tag n) = False"

text \<open>
  Calls of the writer one after the other. \<open>add_event\<close> says for an event whether writing
  it raises (evaluating the arguments of the call included: \<^verbatim>\<open>loss.item()\<close>,
  \<^verbatim>\<open>make_grid\<close>); an exception ends the sequence, the events written before it are in the
  log.
\<close>

fun write_events ::
  "(event \<Rightarrow> error option) \<Rightarrow> event list \<Rightarrow> event list \<Rightarrow> event list \<times> error option" where
  "write_events add_event w [] = (w, None)"
| "write_events add_event w (ev # evs) =
     (case add_event ev of
        Some e \<Rightarrow> (w, Some e)
      | None \<Rightarrow> write_events add_event (w @ [ev]) evs)"

text \<open>
  The objects the loop calls into; each call may raise. \<open>to_device\<close> is \<^verbatim>\<open>.to(device)\<close>;
  \<open>model\<close> is \<^verbatim>\<open>model(photo_image_batch)\<close>, reading the weights from the store;
  \<open>criterion\<close> is \<^verbatim>\<open>nn.MSELoss()\<close>; \<open>backward\<close> gives, after \<^verbatim>\<open>opt.zero_grad()\<close> and
  \<^verbatim>\<open>loss.backward()\<close>, the gradient held by each tensor (none for a tensor outside the
  graph); \<open>parameters\<close> is \<^verbatim>\<open>model.parameters()\<close>, the list the Adam optimizer is
  constructed over, and \<open>adam\<close> its update rule; \<open>add_event\<close> is the summary writer.
\<close>

record ('t, 'o) trainer =
  to_device :: "'t \<Rightarrow> error + 't"
  model :: "(addr \<Rightarrow> 't) \<Rightarrow> 't \<Rightarrow> error + 't"
  criterion :: "'t \<Rightarrow> 't \<Rightarrow> error + real"
  backward :: "(addr \<Rightarrow> 't) \<Rightarrow> 't \<Rightarrow> 't \<Rightarrow> error + (addr \<Rightarrow> 't option)"
  parameters :: "addr list"
  adam :: "'o \<Rightarrow> 't \<Rightarrow> 't \<Rightarrow> error + 'o \<times> 't"
  add_event :: "event \<Rightarrow> error option"

text \<open>
  \<^verbatim>\<open>train_dataloader\<close>: \<open>len\<close> is \<^verbatim>\<open>len(train_dataloader)\<close>, and iterating it in epoch
  \<open>e\<close> draws the batches \<open>fetch e 0\<close>, ..., \<open>fetch e (len - 1)\<close> (the loader of a
  map-style dataset draws one batch per index of its batch sampler; with
  \<^verbatim>\<open>shuffle=True\<close> the batches differ from epoch to epoch). Drawing a batch may raise;
  a batch is the pair of addresses of its photo and map tensors.
\<close>

record dataloader =
  len :: nat
  fetch :: "nat \<Rightarrow> nat \<Rightarrow> error + addr \<times> addr"

definition iterate :: "dataloader \<Rightarrow> nat \<Rightarrow> (error + addr \<times> addr) list" where
  "iterate dl e = map (fetch dl e) [0..<len dl]"

record ('t, 'o) train_state =
  store :: "addr \<Rightarrow> 't"
  opt_state :: "'o"
  writer :: "event list"
  n_iters :: nat

text \<open>
  One pass through the body of the inner \<^verbatim>\<open>for batch in tqdm(train_dataloader)\<close>. It
  yields the state it reaches and the exception that ended it, if any: what the
  optimizer and the writer did before an exception is in that state.
\<close>

definition train_iteration ::
  "('t, 'o) trainer \<Rightarrow> nat \<Rightarrow> nat \<Rightarrow> ('t, 'o) train_state \<Rightarrow> addr \<times> addr \<Rightarrow>
   ('t, 'o) train_state \<times> error option" where
  "train_iteration tr epoch l s batch =
     (let (photo_image_batch, map_image_batch) = batch
      in case to_device tr (store s photo_image_batch) of
           Inl e \<Rightarrow> (s, Some e)
         | Inr photo \<Rightarrow>
      (case to_device tr (store s map_image_batch) of
           Inl e \<Rightarrow> (s, Some e)
         | Inr target \<Rightarrow>
      (case model tr (store s) photo of
           Inl e \<Rightarrow> (s, Some e)
         | Inr map_image_pred_batch \<Rightarrow>
      (case criterion tr map_image_pred_batch target of
           Inl e \<Rightarrow> (s, Some e)
         | Inr loss \<Rightarrow>
      (case backward tr (store s) photo target of
           Inl e \<Rightarrow> (s, Some e)
         | Inr grads \<Rightarrow>
      (case opt_step (adam tr) (parameters tr) grads (opt_state s, store s) of
           ((ost, st), Some e) \<Rightarrow> (s\<lparr>store := st, opt_state := ost\<rparr>, Some e)
         | ((ost, st), None) \<Rightarrow>
             (let step = epoch * l + n_iters s;
                  events = Scalar ''train/loss'' loss step #
                    (if n_iters s mod 50 = 0
                     then [Image ''train/photo_image'' step,
                           Image ''train/map_image_pred'' step,
                           Image ''train/map_image_gt'' step]
                     else [])
              in case write_events (add_event tr) (writer s) events of
                   (w, Some e) \<Rightarrow> (s\<lparr>store := st, opt_state := ost, writer := w\<rparr>, Some e)
                 | (w, None) \<Rightarrow>
                     (\<lparr>store = st, opt_state = ost, writer = w, n_iters = n_iters s + 1\<rparr>,
                      None))))))))"

text \<open>
  The inner loop over the batches still to draw. An exception, of drawing a batch or
  of an iteration, ends the run; the state reached is returned with it.
\<close>

fun run_batches ::
  "('t, 'o) trainer \<Rightarrow> nat \<Rightarrow> nat \<Rightarrow> ('t, 'o) train_state \<Rightarrow> (error + addr \<times> addr) list \<Rightarrow>
   ('t, 'o) train_state \<times> error option" where
  "run_batches tr epoch l s [] = (s, None)"
| "run_batches tr epoch l s (next_batch # rest) =
     (case next_batch of
        Inl e \<Rightarrow> (s, Some e)
      | Inr batch \<Rightarrow>
         (case train_iteration tr epoch l s batch of
            (s', Some e) \<Rightarrow> (s', Some e)
          | (s', None) \<Rightarrow> run_batches tr epoch l s' rest))"

text \<open>The outer \<^verbatim>\<open>for epoch in range(n_epochs)\<close>, over the list of epochs still to run.\<close>

fun run_epochs ::
  "('t, 'o) trainer \<Rightarrow> dataloader \<Rightarrow> ('t, 'o) train_state \<Rightarrow> nat list \<Rightarrow>
   ('t, 'o) train_state \<times> error option" where
  "run_epochs tr dl s [] = (s, None)"
| "run_epochs tr dl s (epoch # rest) =
     (case run_batches tr epoch (len dl) (s\<lparr>n_iters := 0\<rparr>) (iterate dl epoch) of
        (s', Some e) \<Rightarrow> (s', Some e)
      | (s', None) \<Rightarrow> run_epochs tr dl s' rest)"

definition train ::
  "('t, 'o) trainer \<Rightarrow> dataloader \<Rightarrow> nat \<Rightarrow> ('t, 'o) train_state \<Rightarrow>
   ('t, 'o) train_state \<times> error option" where
  "train tr dl n_epochs s = run_epochs tr dl s [0..<n_epochs]"

text \<open>The steps of the scalars in a log, in the order they were written.\<close>

definition scalar_steps :: "event list \<Rightarrow> nat list" where
  "scalar_steps w = map global_step (filter is_scalar w)"

subsection \<open>Runs used as examples\<close>

text \<open>A trainer over one-number tensors with no weights, a loader of two batches.\<close>

definition trainer0 :: "(real, unit) trainer" where
  "trainer0 = \<lparr>to_device = (\<lambda>x. Inr x), model = (\<lambda>st x. Inr x),
     criterion = (\<lambda>a b. Inr ((a - b)\<^sup>2)),
     backward = (\<lambda>st a b. Inr (\<lambda>p. None)), parameters = [],
     adam = (\<lambda>ost w g. Inr (ost, w)), add_event = (\<lambda>ev. None)\<rparr>"

definition dataloader0 :: dataloader where
  "dataloader0 = \<lparr>len = 2, fetch = (\<lambda>e i. Inr (0, 1))\<rparr>"

definition train_state0 :: "(real, unit) train_state" where
  "train_state0 = \<lparr>store = (\<lambda>a. 0), opt_state = (), writer = [], n_iters = 0\<rparr>"

text \<open>
  The same trainer with a model that raises on a negative input, and a loader whose
  second batch of each epoch has its photo at address 2; a store with a negative
  number there.
\<close>

definition trainer_raising :: "(real, unit) trainer" where
  "trainer_raising = trainer0\<lparr>model :=
     (\<lambda>st x. if x < 0 then Inl (FrameworkError ''RuntimeError'') else Inr x)\<rparr>"

definition dataloader1 :: dataloader where
  "dataloader1 = \<lparr>len = 2, fetch = (\<lambda>e i. if i = 0 then Inr (0, 1) else Inr (2, 1))\<rparr>"

definition train_state1 :: "(real, unit) train_state" where
  "train_state1 = \<lparr>store = (\<lambda>a. if a = 2 then - 1 else 0), opt_state = (), writer = [],
     n_iters = 0\<rparr>"

text \<open>That store after one iteration of the train loop.\<close>

definition train_state1_after :: "(real, unit) train_state" where
  "train_state1_after = \<lparr>store = (\<lambda>a. if a = 2 then - 1 else 0), opt_state = (),
     writer = [Scalar ''train/loss'' 0 0, Image ''train/photo_image'' 0,
               Image ''train/map_image_pred'' 0, Image ''train/map_image_gt'' 0],
     n_iters = 1\<rparr>"

section \<open>Photo to map: normalisation and display\<close>

text \<open>
  The tensors of the notebook hold 32-bit floats. An element is modelled by the real
  number it stands for, and every arithmetic operation on tensors rounds its exact result
  to the nearest binary32 value, ties to the even significand: \<open>fl32\<close>. The binary32
  grid around \<open>x\<close> has the spacing \<open>ulp32 x\<close>: \<open>2 ^ (e - 23)\<close> where \<open>2 ^ e \<le> \<bar>x\<bar> < 2 ^ (e + 1)\<close>,
  with \<open>e\<close> no less than \<open>- 126\<close> (below that the values are subnormal, on the grid of
  spacing \<open>2 ^ - 149\<close>). Magnitudes of \<open>2 ^ 128\<close> and more, which binary32 turns into
  infinities, do not occur among pixel values and are outside the model.
\<close>

text \<open>Rounding a real number to the nearest integer, a tie to the even one.\<close>

definition rne :: "real \<Rightarrow> int" where
  "rne y =
     (let f = \<lfloor>y\<rfloor>; d = y - of_int f
      in if d < 1 / 2 then f
         else if 1 / 2 < d then f + 1
         else if even f then f else f + 1)"

text \<open>
  The binary exponent by search: how often a magnitude below 1 is doubled until it
  reaches 1 (at most \<open>k\<close> times), how often a magnitude from 2 on is halved until it is
  below 2.
\<close>

fun shift_up :: "nat \<Rightarrow> real \<Rightarrow> nat" where
  "shift_up 0 y = 0"
| "shift_up (Suc k) y = (if 1 \<le> y then 0 else Suc (shift_up k (2 * y)))"

fun shift_down :: "nat \<Rightarrow> real \<Rightarrow> nat" where
  "shift_down 0 y = 0"
| "shift_down (Suc k) y = (if y < 2 then 0 else Suc (shift_down k (y / 2)))"

definition ulp32 :: "real \<Rightarrow> real" where
  "ulp32 x =
     (if 1 \<le> \<bar>x\<bar> then 2 ^ shift_down 127 \<bar>x\<bar> / 2 ^ 23
      else 1 / 2 ^ (shift_up 126 \<bar>x\<bar> + 23))"

definition fl32 :: "real \<Rightarrow> real" where
  "fl32 x = of_int (rne (x / ulp32 x)) * ulp32 x"

text \<open>
  An image tensor of size \<open>(c, h, w)\<close> is a list of \<open>c\<close> channels, each a list of \<open>h\<close> rows
  of \<open>w\<close> values.
\<close>

type_synonym image = "real list list list"

text \<open>
  \<^verbatim>\<open>transforms.ToTensor()\<close> on one byte of an 8-bit picture: the byte as a float,
  divided by 255.
\<close>

definition ToTensor_pixel :: "nat \<Rightarrow> real" where
  "ToTensor_pixel byte = fl32 (real byte / 255)"

text \<open>
  \<^verbatim>\<open>transforms.Normalize(mean, std)\<close>: mean and standard deviation become tensors of the
  image's type, and channel by channel the image is \<^verbatim>\<open>sub_(mean).div_(std)\<close>, each of
  the two operations rounding. The framework refuses a standard deviation that is zero
  as a float, and an image whose channel count differs from the length of \<open>mean\<close>.
\<close>

definition Normalize :: "real list \<Rightarrow> real list \<Rightarrow> image \<Rightarrow> error + image" where
  "Normalize mean std img =
     (if list_ex (\<lambda>s. fl32 s = 0) std then Inl (FrameworkError ''ValueError'')
      else if length img = length mean \<and> length mean = length std
      then Inr (map (\<lambda>(ch, m, s). map (map (\<lambda>v. fl32 (fl32 (v - fl32 m) / fl32 s))) ch)
                  (zip img (zip mean std)))
      else Inl (FrameworkError ''size mismatch''))"

text \<open>The last step of the notebook's \<^verbatim>\<open>transform\<close>.\<close>

definition transform_Normalize :: "image \<Rightarrow> error + image" where
  "transform_Normalize = Normalize [0.5, 0.5, 0.5] [0.5, 0.5, 0.5]"

text \<open>
  \<^verbatim>\<open>imshow\<close>, first statement: \<^verbatim>\<open>img = img / 2 + 0.5\<close>, a division and an addition on the
  tensor, each rounding. The rest of \<^verbatim>\<open>imshow\<close> moves the channel axis last and hands the
  array to the plotting library.
\<close>

definition unnormalize :: "image \<Rightarrow> image" where
  "unnormalize img = map (map (map (\<lambda>v. fl32 (fl32 (v / 2) + 0.5)))) img"

text \<open>All values of an image lie between two bounds.\<close>

definition pixels_within :: "real \<Rightarrow> real \<Rightarrow> image \<Rightarrow> bool" where
  "pixels_within lo hi img = list_all (list_all (list_all (\<lambda>v. lo \<le> v \<and> v \<le> hi))) img"

text \<open>Two images have the same size and differ by at most \<open>eps\<close> at every position.\<close>

definition pixels_close :: "real \<Rightarrow> image \<Rightarrow> image \<Rightarrow> bool" where
  "pixels_close eps a b = list_all2 (list_all2 (list_all2 (\<lambda>x y. \<bar>x - y\<bar> \<le> eps))) a b"

definition image0 :: image where
  "image0 = [[[0, 1]], [[0.5, 0.25]], [[1, 0.75]]]"

text \<open>The image of one pixel whose three bytes are 1.\<close>

definition dark_pixel :: image where
  "dark_pixel = [[[ToTensor_pixel 1]], [[ToTensor_pixel 1]], [[ToTensor_pixel 1]]]"

section \<open>Placeholders\<close>

text \<open>
  The notebooks are templates: where the reader is to write code, the cell has the
  comment \<^verbatim>\<open># your code here\<close>. An operation with a placeholder takes the code written
  there as a parameter. Two shapes occur.

  A placeholder that stands for the right-hand side of an assignment
  (\<^verbatim>\<open>result = ## your code here\<close>) is a parameter that computes the assigned value from
  the variables in scope. As shipped nothing stands there, Python rejects the cell, and
  the operation has no value: \<open>your_code_here\<close>.

  A placeholder that is a line of its own stands for statements; it is a parameter that
  maps the local variables before it to those after it. As shipped the line is a comment
  and binds nothing: \<open>comment\<close>. A name read afterwards that is not bound raises.
\<close>

definition your_code_here :: "error + 'a" where
  "your_code_here = Inl SyntaxError"

definition comment :: "(string \<rightharpoonup> 'v) \<Rightarrow> (string \<rightharpoonup> 'v)" where
  "comment env = env"

definition local_var :: "(string \<rightharpoonup> 'v) \<Rightarrow> string \<Rightarrow> error + 'v" where
  "local_var env name = (case env name of None \<Rightarrow> Inl (NameError name) | Some v \<Rightarrow> Inr v)"

section \<open>Photo to map: the dataset wrapper\<close>

text \<open>Python indexing of a list: a negative index counts from the end.\<close>

definition getitem :: "'a list \<Rightarrow> int \<Rightarrow> error + 'a" where
  "getitem xs i =
     (if 0 \<le> i \<and> i < int (length xs) then Inr (xs ! nat i)
      else if i < 0 \<and> - int (length xs) \<le> i then Inr (xs ! nat (int (length xs) + i))
      else Inl IndexError)"

text \<open>
  \<^verbatim>\<open>torchvision.datasets.ImageFolder\<close> as far as \<^verbatim>\<open>__getitem__\<close> reads it: the list of
  (path, class index) pairs, the loader of a file, the optional transform. A sample is
  of type \<open>'a\<close> before and after the transform.
\<close>

record 'a ImageFolder =
  samples :: "(string \<times> nat) list"
  loader :: "string \<Rightarrow> error + 'a"
  transform :: "('a \<Rightarrow> error + 'a) option"

text \<open>
  \<^verbatim>\<open>PhotoMapDataset.__getitem__\<close>. The parameter \<open>split\<close> is the placeholder in
  \<^verbatim>\<open>photo_image, map_image = # your code here\<close>; \<open>sample\<close> is in scope there.
\<close>

definition PhotoMapDataset_getitem ::
  "('a \<Rightarrow> error + 'a \<times> 'a) \<Rightarrow> 'a ImageFolder \<Rightarrow> int \<Rightarrow> error + 'a \<times> 'a" where
  "PhotoMapDataset_getitem split self index =
     (case getitem (samples self) index of
        Inl e \<Rightarrow> Inl e
      | Inr (path, _) \<Rightarrow>
         (case loader self path of
            Inl e \<Rightarrow> Inl e
          | Inr sample \<Rightarrow>
             (case (case transform self of None \<Rightarrow> Inr sample | Some t \<Rightarrow> t sample) of
                Inl e \<Rightarrow> Inl e
              | Inr sample \<Rightarrow>
                 (case split sample of
                    Inl e \<Rightarrow> Inl e
                  | Inr (photo_image, map_image) \<Rightarrow> Inr (photo_image, map_image)))))"

text \<open>
  The halves the specification speaks of, for a \<open>(3, H, W)\<close> image: the columns before
  and from the middle of the width axis.
\<close>

definition spec_left_half :: "image \<Rightarrow> image" where
  "spec_left_half img = map (map (\<lambda>row. take (length row div 2) row)) img"

definition spec_right_half :: "image \<Rightarrow> image" where
  "spec_right_half img = map (map (\<lambda>row. drop (length row div 2) row)) img"

text \<open>A folder of one side-by-side image of size \<open>(3, 1, 2)\<close>, already a tensor.\<close>

definition side_by_side0 :: image where
  "side_by_side0 = [[[1, 2]], [[3, 4]], [[5, 6]]]"

definition folder0 :: "image ImageFolder" where
  "folder0 = \<lparr>samples = [(''maps/train/0/1.jpg'', 0)],
     loader = (\<lambda>path. Inr side_by_side0),
     transform = Some (\<lambda>sample. Inr (map (map (map (\<lambda>v. v - 1))) sample))\<rparr>"

section \<open>Photo to map: the network classes\<close>

text \<open>
  \<^verbatim>\<open>UnetDownBlock.forward\<close>, \<^verbatim>\<open>UnetUpBlock.forward\<close> and \<^verbatim>\<open>Unet.forward\<close>: a placeholder
  line, then a \<^verbatim>\<open>return\<close> of local variables. The constructors are a call of the base
  class's constructor and a placeholder line.
\<close>

definition UnetDownBlock_forward ::
  "((string \<rightharpoonup> 't) \<Rightarrow> (string \<rightharpoonup> 't)) \<Rightarrow> 't \<Rightarrow> error + 't \<times> 't" where
  "UnetDownBlock_forward body x =
     (let env = body [''x'' \<mapsto> x]
      in case local_var env ''x'' of
           Inl e \<Rightarrow> Inl e
         | Inr x' \<Rightarrow>
            (case local_var env ''x_before_pooling'' of
               Inl e \<Rightarrow> Inl e
             | Inr x_before_pooling \<Rightarrow> Inr (x', x_before_pooling)))"

definition UnetUpBlock_forward ::
  "((string \<rightharpoonup> 't) \<Rightarrow> (string \<rightharpoonup> 't)) \<Rightarrow> 't \<Rightarrow> 't \<Rightarrow> error + 't" where
  "UnetUpBlock_forward body x x_bridge =
     local_var (body [''x'' \<mapsto> x, ''x_bridge'' \<mapsto> x_bridge]) ''x''"

definition Unet_forward ::
  "((string \<rightharpoonup> 't) \<Rightarrow> (string \<rightharpoonup> 't)) \<Rightarrow> 't \<Rightarrow> error + 't" where
  "Unet_forward body x = local_var (body [''x'' \<mapsto> x]) ''x''"

section \<open>Style transfer: loading the images\<close>

text \<open>
  A decoded image file, as far as the loader's sizes depend on it: the number of
  bands (channels), the height and the width. The pixel data and its resampling belong
  to the imaging library.
\<close>

record picture =
  bands :: nat
  height :: nat
  width :: nat

text \<open>\<^verbatim>\<open>imsize = 512 if torch.cuda.is_available() else 128\<close>\<close>

definition imsize :: "bool \<Rightarrow> nat" where
  "imsize cuda_is_available = (if cuda_is_available then 512 else 128)"

text \<open>
  \<^verbatim>\<open>transforms.Resize((h, w))\<close> scales to exactly that height and width and keeps the
  bands; \<^verbatim>\<open>transforms.ToTensor()\<close> gives a tensor of size (bands, height, width);
  \<^verbatim>\<open>unsqueeze(0)\<close> puts a dimension of size 1 in front. A size is a list of naturals.
\<close>

definition Resize :: "nat \<times> nat \<Rightarrow> picture \<Rightarrow> picture" where
  "Resize hw pic = pic\<lparr>height := fst hw, width := snd hw\<rparr>"

definition ToTensor_size :: "picture \<Rightarrow> nat list" where
  "ToTensor_size pic = [bands pic, height pic, width pic]"

definition unsqueeze0 :: "nat list \<Rightarrow> nat list" where
  "unsqueeze0 sz = 1 # sz"

definition image_transform_fn :: "bool \<Rightarrow> picture \<Rightarrow> nat list" where
  "image_transform_fn cuda pic = ToTensor_size (Resize (imsize cuda, imsize cuda) pic)"

text \<open>
  \<^verbatim>\<open>image_loader\<close>, returning the size of the tensor it loads. \<open>Image_open\<close> is
  \<^verbatim>\<open>Image.open\<close> on the files at hand: it decodes the file or raises. Moving the tensor to
  the device keeps its size.
\<close>

definition image_loader ::
  "(string \<Rightarrow> error + picture) \<Rightarrow> bool \<Rightarrow> string \<Rightarrow> error + nat list" where
  "image_loader Image_open cuda image_name =
     (case Image_open image_name of
        Inl e \<Rightarrow> Inl e
      | Inr pic \<Rightarrow> Inr (unsqueeze0 (image_transform_fn cuda pic)))"

definition style_image_path :: string where
  "style_image_path = ''./data/starry-night.jpg''"

definition content_image_path :: string where
  "content_image_path = ''./data/amsterdam.jpg''"

text \<open>
  The cell that loads both images and then asserts
  \<^verbatim>\<open>style_image.size() == content_image.size()\<close>; it yields the two sizes.
\<close>

definition load_images ::
  "(string \<Rightarrow> error + picture) \<Rightarrow> bool \<Rightarrow> error + nat list \<times> nat list" where
  "load_images Image_open cuda =
     (case image_loader Image_open cuda style_image_path of
        Inl e \<Rightarrow> Inl e
      | Inr style_image \<Rightarrow>
         (case image_loader Image_open cuda content_image_path of
            Inl e \<Rightarrow> Inl e
          | Inr content_image \<Rightarrow>
             (if style_image = content_image then Inr (style_image, content_image)
              else Inl (AssertionError
                 ''we need to import style and content images of the same size''))))"

text \<open>Two sets of files: a colour and a greyscale picture; two colour pictures.\<close>

definition files_rgb_grey :: "string \<Rightarrow> error + picture" where
  "files_rgb_grey name =
     (if name = ''./data/starry-night.jpg'' then Inr \<lparr>bands = 3, height = 600, width = 800\<rparr>
      else if name = ''./data/amsterdam.jpg'' then Inr \<lparr>bands = 1, height = 480, width = 640\<rparr>
      else Inl (FrameworkError ''FileNotFoundError''))"

definition files_rgb_rgb :: "string \<Rightarrow> error + picture" where
  "files_rgb_rgb name =
     (if name = ''./data/starry-night.jpg'' then Inr \<lparr>bands = 3, height = 600, width = 800\<rparr>
      else if name = ''./data/amsterdam.jpg'' then Inr \<lparr>bands = 3, height = 480, width = 640\<rparr>
      else Inl (FrameworkError ''FileNotFoundError''))"

text \<open>No files at all.\<close>

definition files_missing :: "string \<Rightarrow> error + picture" where
  "files_missing name = Inl (FrameworkError ''FileNotFoundError'')"

section \<open>Style transfer: the feature extractor\<close>

text \<open>\<^verbatim>\<open>str(x)\<close> of a natural number: its decimal digits.\<close>

definition digit :: "nat \<Rightarrow> char" where
  "digit d = ''0123456789'' ! d"

function str :: "nat \<Rightarrow> string" where
  "str n = (if n < 10 then [digit n] else str (n div 10) @ [digit (n mod 10)])"
  by pat_completeness auto
termination
  by (relation "measure id") auto

declare str.simps [simp del]

text \<open>
  An \<^verbatim>\<open>nn.Sequential\<close> is the list of its named modules, in the order they were added.
  The loop \<^verbatim>\<open>for x in range(..): slice.add_module(str(x), vgg_pretrained_features[x])\<close>
  over the indices \<open>xs\<close>; indexing the pretrained sequence outside its length raises.
\<close>

fun add_modules ::
  "'l list \<Rightarrow> nat list \<Rightarrow> (string \<times> 'l) list \<Rightarrow> error + (string \<times> 'l) list" where
  "add_modules vgg_pretrained_features [] slice = Inr slice"
| "add_modules vgg_pretrained_features (x # xs) slice =
     (if x < length vgg_pretrained_features
      then add_modules vgg_pretrained_features xs
             (slice @ [(str x, vgg_pretrained_features ! x)])
      else Inl IndexError)"

record 'l Vgg16 =
  slice1 :: "(string \<times> 'l) list"
  slice2 :: "(string \<times> 'l) list"
  slice3 :: "(string \<times> 'l) list"
  slice4 :: "(string \<times> 'l) list"
  param_requires_grad :: bool

text \<open>
  \<^verbatim>\<open>Vgg16.__init__\<close>, with the layers of \<^verbatim>\<open>models.vgg16(pretrained=True).features\<close> as
  parameter. The last statement switches the gradients of all parameters off unless
  \<^verbatim>\<open>requires_grad\<close> is set.
\<close>

definition Vgg16_init :: "'l list \<Rightarrow> bool \<Rightarrow> error + 'l Vgg16" where
  "Vgg16_init vgg_pretrained_features requires_grad =
     (case add_modules vgg_pretrained_features [0..<4] [] of
        Inl e \<Rightarrow> Inl e
      | Inr s1 \<Rightarrow>
     (case add_modules vgg_pretrained_features [4..<9] [] of
        Inl e \<Rightarrow> Inl e
      | Inr s2 \<Rightarrow>
     (case add_modules vgg_pretrained_features [9..<16] [] of
        Inl e \<Rightarrow> Inl e
      | Inr s3 \<Rightarrow>
     (case add_modules vgg_pretrained_features [16..<23] [] of
        Inl e \<Rightarrow> Inl e
      | Inr s4 \<Rightarrow>
          Inr \<lparr>slice1 = s1, slice2 = s2, slice3 = s3, slice4 = s4,
               param_requires_grad = (if \<not> requires_grad then False else True)\<rparr>))))"

text \<open>
  \<^verbatim>\<open>Vgg16.forward\<close>: a placeholder line, then the dictionary of four local variables.
  The statements written at the placeholder see \<open>self\<close> and \<open>x\<close>.
\<close>

definition Vgg16_forward ::
  "('l Vgg16 \<Rightarrow> (string \<rightharpoonup> 't) \<Rightarrow> (string \<rightharpoonup> 't)) \<Rightarrow> 'l Vgg16 \<Rightarrow> 't \<Rightarrow>
   error + (string \<times> 't) list" where
  "Vgg16_forward body self x =
     (let env = body self [''x'' \<mapsto> x]
      in case local_var env ''x_relu1_2'' of Inl e \<Rightarrow> Inl e | Inr x_relu1_2 \<Rightarrow>
        (case local_var env ''x_relu2_2'' of Inl e \<Rightarrow> Inl e | Inr x_relu2_2 \<Rightarrow>
        (case local_var env ''x_relu3_3'' of Inl e \<Rightarrow> Inl e | Inr x_relu3_3 \<Rightarrow>
        (case local_var env ''x_relu4_3'' of Inl e \<Rightarrow> Inl e | Inr x_relu4_3 \<Rightarrow>
           Inr [(''relu1_2'', x_relu1_2), (''relu2_2'', x_relu2_2),
                (''relu3_3'', x_relu3_3), (''relu4_3'', x_relu4_3)]))))"

text \<open>
  What the specification says of \<^verbatim>\<open>forward\<close>: the input runs through the four slices in
  sequence, and the activation after each slice is kept. A layer is a function on
  tensors; a sequence applies its modules in order.
\<close>

definition Sequential_forward :: "(string \<times> ('t \<Rightarrow> 't)) list \<Rightarrow> 't \<Rightarrow> 't" where
  "Sequential_forward slice x = fold (\<lambda>(name, layer) h. layer h) slice x"

definition spec_Vgg16_forward :: "('t \<Rightarrow> 't) Vgg16 \<Rightarrow> 't \<Rightarrow> (string \<times> 't) list" where
  "spec_Vgg16_forward self x =
     (let x_relu1_2 = Sequential_forward (slice1 self) x;
          x_relu2_2 = Sequential_forward (slice2 self) x_relu1_2;
          x_relu3_3 = Sequential_forward (slice3 self) x_relu2_2;
          x_relu4_3 = Sequential_forward (slice4 self) x_relu3_3
      in [(''relu1_2'', x_relu1_2), (''relu2_2'', x_relu2_2),
          (''relu3_3'', x_relu3_3), (''relu4_3'', x_relu4_3)])"

text \<open>Statements that do what the specification says, as a filling of the placeholder.\<close>

definition slice_by_slice ::
  "('t \<Rightarrow> 't) Vgg16 \<Rightarrow> (string \<rightharpoonup> 't) \<Rightarrow> (string \<rightharpoonup> 't)" where
  "slice_by_slice self env =
     (case env ''x'' of
        None \<Rightarrow> env
      | Some x \<Rightarrow>
         (let x_relu1_2 = Sequential_forward (slice1 self) x;
              x_relu2_2 = Sequential_forward (slice2 self) x_relu1_2;
              x_relu3_3 = Sequential_forward (slice3 self) x_relu2_2;
              x_relu4_3 = Sequential_forward (slice4 self) x_relu3_3
          in env(''x_relu1_2'' \<mapsto> x_relu1_2, ''x_relu2_2'' \<mapsto> x_relu2_2,
                 ''x_relu3_3'' \<mapsto> x_relu3_3, ''x_relu4_3'' \<mapsto> x_relu4_3)))"

text \<open>A stand-in for the pretrained sequence: 31 layers, layer \<open>i\<close> adds \<open>i\<close>.\<close>

definition layers0 :: "(int \<Rightarrow> int) list" where
  "layers0 = map (\<lambda>i h. h + int i) [0..<31]"

definition vgg0 :: "(int \<Rightarrow> int) Vgg16" where
  "vgg0 = \<lparr>slice1 = map (\<lambda>x. (str x, layers0 ! x)) [0..<4],
            slice2 = map (\<lambda>x. (str x, layers0 ! x)) [4..<9],
            slice3 = map (\<lambda>x. (str x, layers0 ! x)) [9..<16],
            slice4 = map (\<lambda>x. (str x, layers0 ! x)) [16..<23],
            param_requires_grad = True\<rparr>"


section \<open>Style transfer: normalisation and the losses\<close>

text \<open>
  \<^verbatim>\<open>Normalization\<close>: the constructor stores mean and standard deviation, one number per
  channel; \<^verbatim>\<open>forward\<close> copies both and returns what the placeholder in
  \<^verbatim>\<open>result = ## your code here\<close> computes from them and \<open>x\<close>.
\<close>

record Normalization =
  mean :: "real list"
  std :: "real list"

definition normalization_mean :: "real list" where
  "normalization_mean = [0.485, 0.456, 0.406]"

definition normalization_std :: "real list" where
  "normalization_std = [0.229, 0.224, 0.225]"

definition Normalization_init :: "real list \<Rightarrow> real list \<Rightarrow> Normalization" where
  "Normalization_init m s = \<lparr>mean = m, std = s\<rparr>"

definition Normalization_forward ::
  "(real list \<Rightarrow> real list \<Rightarrow> 't \<Rightarrow> error + 't) \<Rightarrow> Normalization \<Rightarrow> 't \<Rightarrow> error + 't" where
  "Normalization_forward code self x =
     (let mean = mean self; std = std self
      in case code mean std x of Inl e \<Rightarrow> Inl e | Inr result \<Rightarrow> Inr result)"

text \<open>\<^verbatim>\<open>ContentLoss.forward\<close>: \<^verbatim>\<open>result = ## your code here\<close>, then \<^verbatim>\<open>return result\<close>.\<close>

definition ContentLoss_forward ::
  "('t \<Rightarrow> 't \<Rightarrow> error + 'r) \<Rightarrow> 't \<Rightarrow> 't \<Rightarrow> error + 'r" where
  "ContentLoss_forward code pred_features target_features =
     (case code pred_features target_features of
        Inl e \<Rightarrow> Inl e
      | Inr result \<Rightarrow> Inr result)"

text \<open>
  Feature maps of size \<open>(b, c, h, w)\<close> are lists nested four deep, Gram matrices of size
  \<open>(b, c, c)\<close> lists nested three deep; their elements are real numbers, and sums and
  products here are exact, without the rounding of floats. \<^verbatim>\<open>features.size()\<close> of a rectangular tensor: the
  lengths along the first element of each axis.
\<close>

type_synonym features = "real list list list list"

definition size4 :: "features \<Rightarrow> nat \<times> nat \<times> nat \<times> nat" where
  "size4 f =
     (case f of
        [] \<Rightarrow> (0, 0, 0, 0)
      | item # _ \<Rightarrow>
         (case item of
            [] \<Rightarrow> (length f, 0, 0, 0)
          | channel # _ \<Rightarrow>
             (case channel of
                [] \<Rightarrow> (length f, length item, 0, 0)
              | row # _ \<Rightarrow> (length f, length item, length channel, length row))))"

text \<open>\<^verbatim>\<open>features.view(b, c, w * h)\<close>: the rows of each channel laid end to end.\<close>

definition view_b_c_wh :: "features \<Rightarrow> real list list list" where
  "view_b_c_wh f = map (map concat) f"

text \<open>
  \<^verbatim>\<open>StyleLoss.gram_matrix\<close>: the size is unpacked, the spatial axes are flattened, and the
  Gram matrix is what the placeholder in \<^verbatim>\<open>gram_matrix = ## your code here\<close> computes;
  \<open>b\<close>, \<open>c\<close>, \<open>h\<close>, \<open>w\<close> and the flattened features are in scope there.
\<close>

definition gram_matrix ::
  "(nat \<times> nat \<times> nat \<times> nat \<Rightarrow> real list list list \<Rightarrow> error + real list list list) \<Rightarrow>
   features \<Rightarrow> error + real list list list" where
  "gram_matrix code f =
     (let (b, c, h, w) = size4 f;
          flat = view_b_c_wh f
      in case code (b, c, h, w) flat of Inl e \<Rightarrow> Inl e | Inr g \<Rightarrow> Inr g)"

text \<open>
  \<^verbatim>\<open>F.mse_loss\<close> with its default reduction, on two tensors of the same size: the mean of
  the squared differences of their elements.
\<close>

definition mse_loss :: "real list list list \<Rightarrow> real list list list \<Rightarrow> real" where
  "mse_loss a b =
     (let xs = concat (concat a); ys = concat (concat b)
      in (\<Sum>(x, y) \<leftarrow> zip xs ys. (x - y)\<^sup>2) / real (length xs))"

text \<open>\<^verbatim>\<open>StyleLoss.forward\<close>\<close>

definition StyleLoss_forward ::
  "(nat \<times> nat \<times> nat \<times> nat \<Rightarrow> real list list list \<Rightarrow> error + real list list list) \<Rightarrow>
   features \<Rightarrow> features \<Rightarrow> error + real" where
  "StyleLoss_forward code pred_features target_features =
     (case gram_matrix code pred_features of
        Inl e \<Rightarrow> Inl e
      | Inr pred_gram_matrix \<Rightarrow>
         (case gram_matrix code target_features of
            Inl e \<Rightarrow> Inl e
          | Inr target_gram_matrix \<Rightarrow> Inr (mse_loss pred_gram_matrix target_gram_matrix)))"

text \<open>
  The Gram matrix the specification speaks of: for each item of the batch, the inner
  products of every pair of channels, each channel flattened over its spatial axes.
\<close>

definition dot :: "real list \<Rightarrow> real list \<Rightarrow> real" where
  "dot u v = (\<Sum>(x, y) \<leftarrow> zip u v. x * y)"

definition spec_gram_matrix :: "features \<Rightarrow> real list list list" where
  "spec_gram_matrix f =
     map (\<lambda>item. map (\<lambda>ci. map (\<lambda>cj. dot (concat ci) (concat cj)) item) item) f"

text \<open>
  Code for the placeholder that multiplies the flattened features with their transpose,
  item by item.
\<close>

definition bmm_transpose ::
  "nat \<times> nat \<times> nat \<times> nat \<Rightarrow> real list list list \<Rightarrow> error + real list list list" where
  "bmm_transpose sz flat = Inr (map (\<lambda>m. map (\<lambda>u. map (\<lambda>v. dot u v) m) m) flat)"

text \<open>Two feature maps of size \<open>(1, 2, 1, 2)\<close>.\<close>

definition pred_features0 :: features where
  "pred_features0 = [[[[1, 2]], [[3, 4]]]]"

definition target_features0 :: features where
  "target_features0 = [[[[1, 0]], [[0, 1]]]]"

section \<open>Style transfer: the optimisation loop\<close>

definition content_loss_layers :: "string list" where
  "content_loss_layers = [''relu2_2'']"

definition style_loss_layers :: "string list" where
  "style_loss_layers = [''relu1_2'', ''relu2_2'', ''relu3_3'', ''relu4_3'']"

text \<open>
  The objects the cell calls into, and the code at its five placeholders. \<open>clamp\<close> is
  \<^verbatim>\<open>torch.clamp(., 0.0, 1.0)\<close>, which returns a new tensor; \<open>normalizer\<close> and \<open>vgg16\<close> are
  the calls of the two modules, the second reading its weights from the store;
  \<open>loss_backward\<close> gives, after \<^verbatim>\<open>opt.zero_grad()\<close> and \<^verbatim>\<open>total_loss.backward()\<close>, the
  gradient held by each tensor; \<open>sgd\<close> is the update of \<^verbatim>\<open>torch.optim.SGD\<close> at
  \<^verbatim>\<open>lr=0.1\<close> from a value and its gradient. The placeholders:
  \<open>content_image_features_code\<close> and \<open>style_image_features_code\<close> before the loop,
  \<open>content_term\<close> and \<open>style_term\<close> in \<^verbatim>\<open>content_loss += ## your code here\<close> and
  \<^verbatim>\<open>style_loss += ## your code here\<close> (the features of the input image, those of the
  target image and \<open>layer\<close> are in scope), \<open>total_loss_code\<close> in
  \<^verbatim>\<open>total_loss = ## your code here\<close>. None of them writes to a tensor in place.
\<close>

record 't stylist =
  clamp :: "'t \<Rightarrow> 't"
  normalizer :: "'t \<Rightarrow> error + 't"
  vgg16 :: "(addr \<Rightarrow> 't) \<Rightarrow> 't \<Rightarrow> error + (string \<times> 't) list"
  content_image_features_code :: "(addr \<Rightarrow> 't) \<Rightarrow> error + (string \<times> 't) list"
  style_image_features_code :: "(addr \<Rightarrow> 't) \<Rightarrow> error + (string \<times> 't) list"
  content_term :: "(string \<times> 't) list \<Rightarrow> (string \<times> 't) list \<Rightarrow> string \<Rightarrow> error + real"
  style_term :: "(string \<times> 't) list \<Rightarrow> (string \<times> 't) list \<Rightarrow> string \<Rightarrow> error + real"
  total_loss_code :: "real \<Rightarrow> real \<Rightarrow> error + real"
  loss_backward :: "(addr \<Rightarrow> 't) \<Rightarrow> addr \<Rightarrow> 't option"
  sgd :: "'t \<Rightarrow> 't \<Rightarrow> 't"

text \<open>\<^verbatim>\<open>loss = 0.0\<close>, then \<^verbatim>\<open>for layer in layers: loss += ...\<close>\<close>

fun accumulate :: "(string \<Rightarrow> error + real) \<Rightarrow> string list \<Rightarrow> real \<Rightarrow> error + real" where
  "accumulate term [] loss = Inr loss"
| "accumulate term (layer # layers) loss =
     (case term layer of
        Inl e \<Rightarrow> Inl e
      | Inr v \<Rightarrow> accumulate term layers (loss + v))"

text \<open>
  The state of the loop: the tensors in the store (the input image at its address, the
  weights of the feature extractor at theirs) and the images shown so far.
\<close>

record 't style_state =
  tensors :: "addr \<Rightarrow> 't"
  displayed :: "'t list"

text \<open>
  The head of the loop body: every tenth epoch the clamped copy of the input image is
  shown.
\<close>

definition show_progress :: "'t stylist \<Rightarrow> addr \<Rightarrow> 't style_state \<Rightarrow> nat \<Rightarrow> 't style_state" where
  "show_progress sty input_image s epoch =
     (if epoch mod 10 = 0
      then s\<lparr>displayed := displayed s @ [clamp sty (tensors s input_image)]\<rparr>
      else s)"

text \<open>
  The rest of the body of \<^verbatim>\<open>for epoch in range(n_epochs)\<close>. The optimizer was
  constructed as \<^verbatim>\<open>torch.optim.SGD([input_image], lr=0.1)\<close>; it has no state of its own.
\<close>

definition style_iteration ::
  "'t stylist \<Rightarrow> addr \<Rightarrow> (string \<times> 't) list \<Rightarrow> (string \<times> 't) list \<Rightarrow> 't style_state \<Rightarrow>
   error + 't style_state" where
  "style_iteration sty input_image content_image_features style_image_features s =
     (let x = clamp sty (tensors s input_image)
      in case normalizer sty x of Inl e \<Rightarrow> Inl e | Inr normalized \<Rightarrow>
        (case vgg16 sty (tensors s) normalized of Inl e \<Rightarrow> Inl e | Inr input_image_features \<Rightarrow>
        (case accumulate (content_term sty input_image_features content_image_features)
                content_loss_layers 0 of Inl e \<Rightarrow> Inl e | Inr content_sum \<Rightarrow>
        (case accumulate (style_term sty input_image_features style_image_features)
                style_loss_layers 0 of Inl e \<Rightarrow> Inl e | Inr style_sum \<Rightarrow>
        (let content_loss = content_sum / real (length content_loss_layers);
             style_loss = style_sum / real (length style_loss_layers)
         in case total_loss_code sty content_loss style_loss of Inl e \<Rightarrow> Inl e
            | Inr total_loss \<Rightarrow>
               (let grads = loss_backward sty (tensors s)
                in case opt_step (\<lambda>u p g. Inr (u, sgd sty p g)) [input_image] grads
                          ((), tensors s) of
                     ((u, st), Some e) \<Rightarrow> Inl e
                   | ((u, st), None) \<Rightarrow> Inr (s\<lparr>tensors := st\<rparr>)))))))"

text \<open>The loop over the epochs still to run; an exception ends it.\<close>

fun run_style ::
  "'t stylist \<Rightarrow> addr \<Rightarrow> (string \<times> 't) list \<Rightarrow> (string \<times> 't) list \<Rightarrow> 't style_state \<Rightarrow>
   nat list \<Rightarrow> 't style_state \<times> error option" where
  "run_style sty input_image cf sf s [] = (s, None)"
| "run_style sty input_image cf sf s (epoch # rest) =
     (case style_iteration sty input_image cf sf (show_progress sty input_image s epoch) of
        Inl e \<Rightarrow> (show_progress sty input_image s epoch, Some e)
      | Inr s' \<Rightarrow> run_style sty input_image cf sf s' rest)"

text \<open>The whole cell: the two feature dictionaries, the optimizer, the loop.\<close>

definition style_transfer ::
  "'t stylist \<Rightarrow> addr \<Rightarrow> nat \<Rightarrow> 't style_state \<Rightarrow> 't style_state \<times> error option" where
  "style_transfer sty input_image n_epochs s =
     (case content_image_features_code sty (tensors s) of
        Inl e \<Rightarrow> (s, Some e)
      | Inr content_image_features \<Rightarrow>
         (case style_image_features_code sty (tensors s) of
            Inl e \<Rightarrow> (s, Some e)
          | Inr style_image_features \<Rightarrow>
              run_style sty input_image content_image_features style_image_features s
                [0..<n_epochs]))"

text \<open>
  An example over one-number tensors: the input image at address 0, a weight of the
  feature extractor at address 1; the features are the product of image and weight, the
  loss is half the square of the distance of that product from 2, and both tensors
  receive a gradient from \<^verbatim>\<open>backward\<close>.
\<close>

definition stylist0 :: "real stylist" where
  "stylist0 = \<lparr>clamp = (\<lambda>v. min 1 (max 0 v)),
     normalizer = (\<lambda>v. Inr v),
     vgg16 = (\<lambda>st v. Inr [(''relu1_2'', st 1 * v), (''relu2_2'', st 1 * v),
                           (''relu3_3'', st 1 * v), (''relu4_3'', st 1 * v)]),
     content_image_features_code = (\<lambda>st. Inr [(''relu2_2'', 2)]),
     style_image_features_code = (\<lambda>st. Inr [(''relu1_2'', 2)]),
     content_term = (\<lambda>fs cf layer. Inr 0),
     style_term = (\<lambda>fs sf layer. Inr 0),
     total_loss_code = (\<lambda>c s. Inr (c + 500000 * s)),
     loss_backward = (\<lambda>st a. if a = 0 then Some (st 1 * (st 1 * st 0 - 2))
                               else if a = 1 then Some (st 0 * (st 1 * st 0 - 2))
                               else None),
     sgd = (\<lambda>p g. p - 0.1 * g)\<rparr>"

definition style_state0 :: "real style_state" where
  "style_state0 = \<lparr>tensors = (\<lambda>a. if a = 0 then 0.5 else 1), displayed = []\<rparr>"

text \<open>A trainer with one weight at address 7 that receives a gradient.\<close>

definition trainer1 :: "(real, unit) trainer" where
  "trainer1 = \<lparr>to_device = (\<lambda>x. Inr x), model = (\<lambda>st x. Inr (st 7 * x)),
     criterion = (\<lambda>a b. Inr ((a - b)\<^sup>2)),
     backward = (\<lambda>st a b. Inr (\<lambda>p. Some 1)), parameters = [7],
     adam = (\<lambda>ost w g. Inr (ost, w - g)), add_event = (\<lambda>ev. None)\<rparr>"


section \<open>Theorems: the train loop\<close>

lemma upt_snoc_shift: "[x] @ [Suc x ..< Suc x + j] = [x ..< x + Suc j]"
  using upt_conv_Cons[of x "x + Suc j"] by simp

lemma upt_join: "(p::nat) + l \<le> k \<Longrightarrow> [p ..< p + l] @ [p + l ..< k] = [p ..< k]"
proof -
  assume "p + l \<le> k"
  then obtain d where d: "k = (p + l) + d"
    using le_Suc_ex by blast
  have "[p ..< (p + l) + d] = [p ..< p + l] @ [p + l ..< (p + l) + d]"
    by (rule upt_add_eq_append) simp
  then show ?thesis unfolding d by simp
qed

text \<open>The writer appends the events it is given in order, up to the first that raises.\<close>

lemma write_events_prefix:
  "\<exists>k \<le> length evs. fst (write_events wr w evs) = w @ take k evs
     \<and> (snd (write_events wr w evs) = None \<longrightarrow> k = length evs)"
proof (induction evs arbitrary: w)
  case Nil
  show ?case by simp
next
  case (Cons ev evs)
  show ?case
  proof (cases "wr ev")
    case (Some e)
    then show ?thesis by (intro exI[of _ 0]) simp
  next
    case None
    from Cons.IH[of "w @ [ev]"] obtain k where "k \<le> length evs"
      "fst (write_events wr (w @ [ev]) evs) = (w @ [ev]) @ take k evs"
      "snd (write_events wr (w @ [ev]) evs) = None \<longrightarrow> k = length evs"
      by (elim exE conjE)
    with None show ?thesis by (intro exI[of _ "Suc k"]) simp
  qed
qed

lemma scalar_steps_take_events:
  assumes "\<forall>ev \<in> set imgs. \<not> is_scalar ev"
  shows "scalar_steps (w @ take k (Scalar tag v n # imgs))
           = scalar_steps w @ (if k = 0 then [] else [n])"
proof (cases k)
  case 0
  then show ?thesis by (simp add: scalar_steps_def)
next
  case (Suc j)
  have "filter is_scalar (take j imgs) = []"
    using assms by (auto simp: filter_empty_conv dest!: in_set_takeD)
  with Suc show ?thesis by (simp add: scalar_steps_def)
qed

text \<open>
  An iteration logs at most one scalar, at the step \<open>epoch * l + n_iters\<close>; when it
  completes it has logged it and counted \<open>n_iters\<close> up by one.
\<close>

lemma train_iteration_log:
  "\<exists>j \<le> 1.
     scalar_steps (writer (fst (train_iteration tr epoch l s batch)))
       = scalar_steps (writer s) @ [epoch * l + n_iters s ..< epoch * l + n_iters s + j]
     \<and> (snd (train_iteration tr epoch l s batch) = None
          \<longrightarrow> j = 1 \<and> n_iters (fst (train_iteration tr epoch l s batch)) = n_iters s + 1)"
proof -
  obtain ph mp where b: "batch = (ph, mp)" by (cases batch)
  let ?n = "epoch * l + n_iters s"
  have unchanged: ?thesis if "train_iteration tr epoch l s batch = (s', Some e)"
    and "writer s' = writer s" for s' e
    using that by (intro exI[of _ 0]) simp
  show ?thesis
  proof (cases "to_device tr (store s ph)")
    case (Inl e)
    then show ?thesis by (intro unchanged[of s e]) (simp_all add: train_iteration_def b)
  next
    case ph: (Inr photo)
    show ?thesis
    proof (cases "to_device tr (store s mp)")
      case (Inl e)
      with ph show ?thesis
        by (intro unchanged[of s e]) (simp_all add: train_iteration_def b)
    next
      case mp: (Inr target)
      show ?thesis
      proof (cases "model tr (store s) photo")
        case (Inl e)
        with ph mp show ?thesis
          by (intro unchanged[of s e]) (simp_all add: train_iteration_def b)
      next
        case pred: (Inr pred)
        show ?thesis
        proof (cases "criterion tr pred target")
          case (Inl e)
          with ph mp pred show ?thesis
            by (intro unchanged[of s e]) (simp_all add: train_iteration_def b)
        next
          case loss: (Inr loss)
          show ?thesis
          proof (cases "backward tr (store s) photo target")
            case (Inl e)
            with ph mp pred loss show ?thesis
              by (intro unchanged[of s e]) (simp_all add: train_iteration_def b)
          next
            case grads: (Inr grads)
            obtain ost st r where
              os: "opt_step (adam tr) (parameters tr) grads (opt_state s, store s) = ((ost, st), r)"
              by (metis surj_pair)
            show ?thesis
            proof (cases r)
              case (Some e)
              with ph mp pred loss grads os show ?thesis
                by (intro unchanged[of "s\<lparr>store := st, opt_state := ost\<rparr>" e])
                   (simp_all add: train_iteration_def b)
            next
              case None
              let ?imgs = "if n_iters s mod 50 = 0
                then [Image ''train/photo_image'' ?n, Image ''train/map_image_pred'' ?n,
                      Image ''train/map_image_gt'' ?n]
                else []"
              let ?evs = "Scalar ''train/loss'' loss ?n # ?imgs"
              have imgs: "\<forall>ev \<in> set ?imgs. \<not> is_scalar ev" by auto
              obtain w r' where we: "write_events (add_event tr) (writer s) ?evs = (w, r')"
                by (metis surj_pair)
              from write_events_prefix[of ?evs "add_event tr" "writer s"] we
              obtain k where k: "w = writer s @ take k ?evs"
                and kfin: "r' = None \<longrightarrow> k = length ?evs"
                by auto
              have steps: "scalar_steps w = scalar_steps (writer s) @ (if k = 0 then [] else [?n])"
                unfolding k using imgs by (rule scalar_steps_take_events)
              have it: "train_iteration tr epoch l s batch =
                  (case r' of
                     Some e \<Rightarrow> (s\<lparr>store := st, opt_state := ost, writer := w\<rparr>, Some e)
                   | None \<Rightarrow> (\<lparr>store = st, opt_state = ost, writer = w,
                                n_iters = n_iters s + 1\<rparr>, None))"
                unfolding train_iteration_def b Let_def
                by (simp only: ph mp pred loss grads os None we sum.case prod.case
                      option.case split: option.splits)
              show ?thesis
              proof (cases r')
                case r: None
                with kfin have "k \<noteq> 0" by auto
                with steps it r show ?thesis
                  by (intro exI[of _ 1]) simp
              next
                case r: (Some e)
                show ?thesis
                proof (cases "k = 0")
                  case True
                  with steps it r show ?thesis by (intro exI[of _ 0]) simp
                next
                  case False
                  with steps it r show ?thesis by (intro exI[of _ 1]) simp
                qed
              qed
            qed
          qed
        qed
      qed
    qed
  qed
qed

text \<open>
  The inner loop logs scalars at the consecutive steps from \<open>epoch * l + n_iters\<close> on, at
  most one for each batch; when no call raises there is one for each batch.
\<close>

lemma run_batches_log:
  "\<exists>j \<le> length bs.
     scalar_steps (writer (fst (run_batches tr epoch l s bs)))
       = scalar_steps (writer s) @ [epoch * l + n_iters s ..< epoch * l + n_iters s + j]
     \<and> (snd (run_batches tr epoch l s bs) = None \<longrightarrow> j = length bs)"
proof (induction bs arbitrary: s)
  case Nil
  show ?case by simp
next
  case (Cons b bs)
  show ?case
  proof (cases b)
    case (Inl e)
    then show ?thesis by (intro exI[of _ 0]) simp
  next
    case (Inr batch)
    let ?it = "train_iteration tr epoch l s batch"
    from train_iteration_log[of tr epoch l s batch] obtain i where i: "i \<le> 1"
      and w: "scalar_steps (writer (fst ?it))
                = scalar_steps (writer s) @ [epoch * l + n_iters s ..< epoch * l + n_iters s + i]"
      and fin: "snd ?it = None \<longrightarrow> i = 1 \<and> n_iters (fst ?it) = n_iters s + 1"
      by (elim exE conjE)
    show ?thesis
    proof (cases "snd ?it")
      case (Some e)
      then have "run_batches tr epoch l s (b # bs) = (fst ?it, Some e)"
        using Inr by (cases ?it) simp
      with w i show ?thesis by (intro exI[of _ i]) simp
    next
      case None
      then have rb: "run_batches tr epoch l s (b # bs) = run_batches tr epoch l (fst ?it) bs"
        using Inr by (cases ?it) simp
      from None fin have n: "n_iters (fst ?it) = Suc (n_iters s)"
        and w1: "scalar_steps (writer (fst ?it)) = scalar_steps (writer s) @ [epoch * l + n_iters s]"
        using w by simp_all
      from Cons.IH[of "fst ?it"] obtain j where j: "j \<le> length bs"
        and eq: "scalar_steps (writer (fst (run_batches tr epoch l (fst ?it) bs)))
           = scalar_steps (writer (fst ?it))
               @ [epoch * l + n_iters (fst ?it) ..< epoch * l + n_iters (fst ?it) + j]"
        and jfin: "snd (run_batches tr epoch l (fst ?it) bs) = None \<longrightarrow> j = length bs"
        by (elim exE conjE)
      have "scalar_steps (writer (fst (run_batches tr epoch l (fst ?it) bs)))
           = scalar_steps (writer s) @ ([epoch * l + n_iters s]
               @ [Suc (epoch * l + n_iters s) ..< Suc (epoch * l + n_iters s) + j])"
        unfolding eq w1 n by simp
      then have "scalar_steps (writer (fst (run_batches tr epoch l (fst ?it) bs)))
           = scalar_steps (writer s) @ [epoch * l + n_iters s ..< epoch * l + n_iters s + Suc j]"
        unfolding upt_snoc_shift .
      with j jfin show ?thesis
        unfolding rb by (intro exI[of _ "Suc j"]) simp
    qed
  qed
qed

text \<open>
  Running the epochs \<open>a\<close>, ..., \<open>a + m - 1\<close> logs scalars at the consecutive steps from
  \<open>a * len\<close> on, up to \<open>(a + m) * len\<close> when no call raises.
\<close>

lemma run_epochs_log:
  "\<exists>k. a * len dl \<le> k \<and> k \<le> (a + m) * len dl \<and>
     scalar_steps (writer (fst (run_epochs tr dl s [a..<a + m])))
       = scalar_steps (writer s) @ [a * len dl ..< k]
     \<and> (snd (run_epochs tr dl s [a..<a + m]) = None \<longrightarrow> k = (a + m) * len dl)"
proof (induction m arbitrary: a s)
  case 0
  show ?case by (intro exI[of _ "a * len dl"]) simp
next
  case (Suc m)
  let ?s0 = "s\<lparr>n_iters := 0\<rparr>"
  let ?r = "run_batches tr a (len dl) ?s0 (iterate dl a)"
  have up: "[a..<a + Suc m] = a # [Suc a..<Suc a + m]"
    using upt_conv_Cons[of a "a + Suc m"] by simp
  have li: "length (iterate dl a) = len dl"
    by (simp add: iterate_def)
  from run_batches_log[of "iterate dl a" tr a "len dl" ?s0]
  obtain j where j: "j \<le> len dl"
    and eq: "scalar_steps (writer (fst ?r))
               = scalar_steps (writer s) @ [a * len dl ..< a * len dl + j]"
    and fin: "snd ?r = None \<longrightarrow> j = len dl"
    unfolding li by (elim exE conjE) simp
  show ?case
  proof (cases "snd ?r")
    case (Some e)
    then have "run_epochs tr dl s [a..<a + Suc m] = (fst ?r, Some e)"
      unfolding up by (cases ?r) simp
    with eq j show ?thesis
      by (intro exI[of _ "a * len dl + j"]) (simp add: add_mult_distrib)
  next
    case None
    then have r: "run_epochs tr dl s [a..<a + Suc m]
                    = run_epochs tr dl (fst ?r) [Suc a..<Suc a + m]"
      unfolding up by (cases ?r) simp
    from None fin have jl: "j = len dl" by simp
    from Suc.IH[of "Suc a" "fst ?r"] obtain k where
      k1: "Suc a * len dl \<le> k" and k2: "k \<le> (Suc a + m) * len dl"
      and keq: "scalar_steps (writer (fst (run_epochs tr dl (fst ?r) [Suc a..<Suc a + m])))
         = scalar_steps (writer (fst ?r)) @ [Suc a * len dl ..< k]"
      and kfin: "snd (run_epochs tr dl (fst ?r) [Suc a..<Suc a + m]) = None
                   \<longrightarrow> k = (Suc a + m) * len dl"
      by (elim exE conjE)
    have sa: "Suc a * len dl = a * len dl + len dl" by simp
    have "[a * len dl ..< a * len dl + len dl] @ [a * len dl + len dl ..< k] = [a * len dl ..< k]"
      using k1 unfolding sa by (rule upt_join)
    then have "scalar_steps (writer (fst (run_epochs tr dl (fst ?r) [Suc a..<Suc a + m])))
         = scalar_steps (writer s) @ [a * len dl ..< k]"
      unfolding keq eq jl sa by simp
    moreover have "a * len dl \<le> k" using k1 by simp
    moreover have "k \<le> (a + Suc m) * len dl" using k2 by simp
    moreover have "snd (run_epochs tr dl (fst ?r) [Suc a..<Suc a + m]) = None
                     \<longrightarrow> k = (a + Suc m) * len dl"
      using kfin by simp
    ultimately show ?thesis
      unfolding r by (intro exI[of _ k]) simp
  qed
qed

lemma train_steps_enumerated:
  "\<exists>k \<le> n_epochs * len dl.
     scalar_steps (writer (fst (train tr dl n_epochs s))) = scalar_steps (writer s) @ [0..<k]
     \<and> (snd (train tr dl n_epochs s) = None \<longrightarrow> k = n_epochs * len dl)"
  using run_epochs_log[of 0 dl n_epochs tr s] by (auto simp: train_def)

text \<open>
  Claim C10. Over a whole training run, the global steps \<open>epoch * len(train_dataloader) +
  n_iters\<close> passed to \<^verbatim>\<open>writer.add_scalar\<close> are strictly increasing from one iteration to the
  next, across epochs: the scalars logged by the run carry the steps \<open>0, 1, ..., k - 1\<close> in
  this order, so no two of them share a step; \<open>k\<close> is at most \<open>n_epochs *
  len(train_dataloader)\<close>, and equal to it when no iteration raises.
\<close>

theorem train_global_step_strictly_increasing:
  "\<exists>k \<le> n_epochs * len dl.
     scalar_steps (writer (fst (train tr dl n_epochs s))) = scalar_steps (writer s) @ [0..<k]
     \<and> sorted_wrt (<) [0..<k] \<and> distinct [0..<k]
     \<and> (snd (train tr dl n_epochs s) = None \<longrightarrow> k = n_epochs * len dl)"
proof -
  from train_steps_enumerated[of n_epochs dl tr s] obtain k where
    "k \<le> n_epochs * len dl"
    "scalar_steps (writer (fst (train tr dl n_epochs s))) = scalar_steps (writer s) @ [0..<k]"
    "snd (train tr dl n_epochs s) = None \<longrightarrow> k = n_epochs * len dl"
    by (elim exE conjE)
  then show ?thesis
    by (intro exI[of _ k]) simp
qed

lemma train_example_run:
  "train trainer0 dataloader0 2 train_state0 =
     (\<lparr>store = (\<lambda>a. 0), opt_state = (),
       writer = [Scalar ''train/loss'' 0 0, Image ''train/photo_image'' 0,
                 Image ''train/map_image_pred'' 0, Image ''train/map_image_gt'' 0,
                 Scalar ''train/loss'' 0 1,
                 Scalar ''train/loss'' 0 2, Image ''train/photo_image'' 2,
                 Image ''train/map_image_pred'' 2, Image ''train/map_image_gt'' 2,
                 Scalar ''train/loss'' 0 3],
       n_iters = 2\<rparr>, None)"
  by (simp add: train_def trainer0_def dataloader0_def train_state0_def iterate_def
        train_iteration_def upt_rec numeral_2_eq_2)

theorem train_global_step_strictly_increasing_witness:
  "snd (train trainer0 dataloader0 2 train_state0) = None
   \<and> scalar_steps (writer (fst (train trainer0 dataloader0 2 train_state0))) = [0, 1, 2, 3]"
proof -
  have run: "snd (train trainer0 dataloader0 2 train_state0) = None"
    by (simp add: train_example_run)
  from train_global_step_strictly_increasing[of 2 dataloader0 trainer0 train_state0]
  obtain k where
    eq: "scalar_steps (writer (fst (train trainer0 dataloader0 2 train_state0)))
           = scalar_steps (writer train_state0) @ [0..<k]"
    and fin: "snd (train trainer0 dataloader0 2 train_state0) = None \<longrightarrow> k = 2 * len dataloader0"
    by (elim exE conjE)
  from fin run have "k = 4" by (simp add: dataloader0_def)
  with eq have "scalar_steps (writer (fst (train trainer0 dataloader0 2 train_state0)))
                  = [0..<4]"
    by (simp add: train_state0_def scalar_steps_def)
  moreover have "[0..<4] = [0, 1, 2, Suc 2]"
    by (simp add: upt_rec)
  ultimately show ?thesis using run by simp
qed



section \<open>Theorems: normalisation and display\<close>

lemma rne_cases: "rne y = \<lfloor>y\<rfloor> \<or> rne y = \<lfloor>y\<rfloor> + 1"
  by (simp add: rne_def Let_def)

text \<open>Rounding to an integer moves a number by at most one half.\<close>

lemma rne_error: "\<bar>of_int (rne y) - y\<bar> \<le> 1 / 2"
proof -
  let ?f = "\<lfloor>y\<rfloor>"
  let ?d = "y - of_int ?f"
  have d: "0 \<le> ?d" "?d < 1" by linarith+
  show ?thesis
  proof (cases "?d < 1 / 2")
    case True
    then have "rne y = ?f" by (simp add: rne_def Let_def)
    with d True show ?thesis by simp
  next
    case False
    show ?thesis
    proof (cases "1 / 2 < ?d")
      case True
      with False have "rne y = ?f + 1" by (simp add: rne_def Let_def)
      with d True show ?thesis by simp
    next
      case tie: False
      with False have h: "?d = 1 / 2" by linarith
      from rne_cases[of y] show ?thesis
      proof
        assume "rne y = ?f" with h show ?thesis by simp
      next
        assume "rne y = ?f + 1" with h show ?thesis by simp
      qed
    qed
  qed
qed

lemma rne_le: "y \<le> of_int m \<Longrightarrow> rne y \<le> m"
proof -
  assume a: "y \<le> of_int m"
  show ?thesis
  proof (cases "y = of_int m")
    case True
    then show ?thesis by (simp add: rne_def Let_def)
  next
    case False
    with a have "y < of_int m" by simp
    then have "\<lfloor>y\<rfloor> < m" by (simp add: floor_less_iff)
    with rne_cases[of y] show ?thesis by auto
  qed
qed

lemma rne_ge: "of_int m \<le> y \<Longrightarrow> m \<le> rne y"
proof -
  assume "of_int m \<le> y"
  then have "m \<le> \<lfloor>y\<rfloor>" by (simp add: le_floor_iff)
  with rne_cases[of y] show ?thesis by auto
qed

lemma ulp32_pos: "0 < ulp32 x"
  by (simp add: ulp32_def)

text \<open>Rounding to binary32 moves a number by at most half the spacing of its grid.\<close>

lemma fl32_error: "\<bar>fl32 x - x\<bar> \<le> ulp32 x / 2"
proof -
  let ?u = "ulp32 x"
  have u: "0 < ?u" by (rule ulp32_pos)
  have "fl32 x - x = (of_int (rne (x / ?u)) - x / ?u) * ?u"
    using u by (simp add: fl32_def algebra_simps)
  then have "\<bar>fl32 x - x\<bar> = \<bar>of_int (rne (x / ?u)) - x / ?u\<bar> * ?u"
    using u by (simp add: abs_mult)
  also have "\<dots> \<le> (1 / 2) * ?u"
    using rne_error[of "x / ?u"] u by (intro mult_right_mono) simp_all
  finally show ?thesis by simp
qed

text \<open>Rounding does not cross a point of the grid.\<close>

lemma fl32_within:
  assumes "of_int lo * ulp32 x \<le> x" and "x \<le> of_int hi * ulp32 x"
  shows "of_int lo * ulp32 x \<le> fl32 x \<and> fl32 x \<le> of_int hi * ulp32 x"
proof -
  let ?u = "ulp32 x"
  have u: "0 < ?u" by (rule ulp32_pos)
  from assms u have "of_int lo \<le> x / ?u" "x / ?u \<le> of_int hi"
    by (simp_all add: field_simps)
  then have "lo \<le> rne (x / ?u)" "rne (x / ?u) \<le> hi"
    by (simp_all add: rne_ge rne_le)
  then have "(of_int lo :: real) \<le> of_int (rne (x / ?u))"
    "(of_int (rne (x / ?u)) :: real) \<le> of_int hi"
    by simp_all
  with u show ?thesis
    unfolding fl32_def by (simp add: mult_right_mono)
qed

lemma ulp32_small:
  assumes "\<bar>x\<bar> \<le> 1"
  shows "\<exists>n. ulp32 x = 1 / 2 ^ (n + 23)"
proof (cases "1 \<le> \<bar>x\<bar>")
  case True
  with assms have "\<bar>x\<bar> = 1" by simp
  then have "ulp32 x = 1 / 2 ^ (0 + 23)" by (simp add: ulp32_def numeral_eq_Suc)
  then show ?thesis by blast
next
  case False
  then show ?thesis by (auto simp: ulp32_def)
qed

lemma ulp32_half:
  assumes "\<bar>x\<bar> \<le> 1 / 2"
  shows "\<exists>n. ulp32 x = 1 / 2 ^ (n + 24)"
proof -
  from assms have lt: "\<not> 1 \<le> \<bar>x\<bar>" by simp
  have "shift_up 126 \<bar>x\<bar> = Suc (shift_up 125 (2 * \<bar>x\<bar>))"
    using lt by (simp add: numeral_eq_Suc)
  with lt have "ulp32 x = 1 / 2 ^ (shift_up 125 (2 * \<bar>x\<bar>) + 24)"
    by (simp add: ulp32_def)
  then show ?thesis by blast
qed

lemma fl32_unit:
  assumes "\<bar>x\<bar> \<le> 1"
  shows "\<bar>fl32 x\<bar> \<le> 1" and "\<bar>fl32 x - x\<bar> \<le> 1 / 2 ^ 24"
proof -
  from ulp32_small[OF assms] obtain n where u: "ulp32 x = 1 / 2 ^ (n + 23)" by blast
  have one: "of_int (2 ^ (n + 23)) * ulp32 x = 1" by (simp add: u)
  have mone: "of_int (- (2 ^ (n + 23))) * ulp32 x = - 1" by (simp add: u)
  from assms have "of_int (- (2 ^ (n + 23))) * ulp32 x \<le> x"
    "x \<le> of_int (2 ^ (n + 23)) * ulp32 x"
    unfolding one mone by linarith+
  from fl32_within[OF this] show "\<bar>fl32 x\<bar> \<le> 1"
    unfolding one mone by linarith
  have "ulp32 x \<le> 1 / 2 ^ 23"
    unfolding u by (simp add: field_simps power_add)
  with fl32_error[of x] show "\<bar>fl32 x - x\<bar> \<le> 1 / 2 ^ 24" by simp
qed

lemma fl32_half:
  assumes "\<bar>x\<bar> \<le> 1 / 2"
  shows "\<bar>fl32 x\<bar> \<le> 1 / 2" and "\<bar>fl32 x - x\<bar> \<le> 1 / 2 ^ 25"
proof -
  from ulp32_half[OF assms] obtain n where u: "ulp32 x = 1 / 2 ^ (n + 24)" by blast
  have p: "(2::real) ^ (n + 24) = 2 * 2 ^ (n + 23)"
  proof -
    have "n + 24 = Suc (n + 23)" by simp
    then show ?thesis by (simp only: power_Suc)
  qed
  have h: "of_int (2 ^ (n + 23)) * ulp32 x = 1 / 2" by (simp add: u p)
  have mh: "of_int (- (2 ^ (n + 23))) * ulp32 x = - (1 / 2)" by (simp add: u p)
  from assms have "of_int (- (2 ^ (n + 23))) * ulp32 x \<le> x"
    "x \<le> of_int (2 ^ (n + 23)) * ulp32 x"
    unfolding h mh by linarith+
  from fl32_within[OF this] show "\<bar>fl32 x\<bar> \<le> 1 / 2"
    unfolding h mh by linarith
  have "ulp32 x \<le> 1 / 2 ^ 24"
    unfolding u by (simp add: field_simps power_add)
  with fl32_error[of x] show "\<bar>fl32 x - x\<bar> \<le> 1 / 2 ^ 25" by simp
qed

lemma fl32_nonneg:
  assumes "0 \<le> x"
  shows "0 \<le> fl32 x"
proof -
  from assms ulp32_pos[of x] have "of_int 0 \<le> x / ulp32 x" by simp
  then have "0 \<le> rne (x / ulp32 x)" by (rule rne_ge)
  with ulp32_pos[of x] show ?thesis by (simp add: fl32_def)
qed

lemma fl32_one_half: "fl32 0.5 = 0.5"
  by code_simp

lemma fl32_one_half_nonzero: "fl32 0.5 \<noteq> 0"
  unfolding fl32_one_half by simp

lemma close_trans:
  fixes x y z :: real
  assumes "\<bar>x - y\<bar> \<le> d" and "\<bar>y - z\<bar> \<le> e"
  shows "\<bar>x - z\<bar> \<le> d + e"
  using assms by linarith

lemma close_halved:
  fixes a b :: real
  assumes "\<bar>a - 2 * b\<bar> \<le> e"
  shows "\<bar>(a / 2 + 1 / 2) - (b + 1 / 2)\<bar> \<le> e / 2"
  using assms by linarith

lemma close_shifted:
  fixes a b :: real
  assumes "\<bar>a - (b - 1 / 2)\<bar> \<le> e"
  shows "\<bar>(a + 1 / 2) - b\<bar> \<le> e"
  using assms by linarith

text \<open>One pixel through \<^verbatim>\<open>Normalize(0.5, 0.5)\<close>, and one through \<^verbatim>\<open>img / 2 + 0.5\<close>.\<close>

lemma normalize_pixel:
  assumes "0 \<le> p" and "p \<le> 1"
  shows "\<bar>fl32 (p - fl32 0.5)\<bar> \<le> 1 / 2"
    and "\<bar>fl32 (p - fl32 0.5) - (p - 1 / 2)\<bar> \<le> 1 / 2 ^ 25"
    and "\<bar>fl32 (fl32 (p - fl32 0.5) / fl32 0.5)\<bar> \<le> 1"
    and "\<bar>fl32 (fl32 (p - fl32 0.5) / fl32 0.5) - 2 * fl32 (p - fl32 0.5)\<bar> \<le> 1 / 2 ^ 24"
proof -
  have x1: "\<bar>p - fl32 0.5\<bar> \<le> 1 / 2"
    using assms unfolding fl32_one_half by linarith
  from fl32_half[OF x1] show q: "\<bar>fl32 (p - fl32 0.5)\<bar> \<le> 1 / 2"
    and "\<bar>fl32 (p - fl32 0.5) - (p - 1 / 2)\<bar> \<le> 1 / 2 ^ 25"
    unfolding fl32_one_half by simp_all
  have d: "fl32 (p - fl32 0.5) / fl32 0.5 = 2 * fl32 (p - fl32 0.5)"
    unfolding fl32_one_half by simp
  from q have x2: "\<bar>fl32 (p - fl32 0.5) / fl32 0.5\<bar> \<le> 1"
    unfolding d by simp
  from fl32_unit[OF x2] show "\<bar>fl32 (fl32 (p - fl32 0.5) / fl32 0.5)\<bar> \<le> 1"
    and "\<bar>fl32 (fl32 (p - fl32 0.5) / fl32 0.5) - 2 * fl32 (p - fl32 0.5)\<bar> \<le> 1 / 2 ^ 24"
    unfolding d by simp_all
qed

lemma unnormalize_pixel:
  assumes "- 1 \<le> v" and "v \<le> 1"
  shows "0 \<le> fl32 (fl32 (v / 2) + 0.5)" and "fl32 (fl32 (v / 2) + 0.5) \<le> 1"
    and "\<bar>fl32 (fl32 (v / 2) + 0.5) - (v / 2 + 1 / 2)\<bar> \<le> 3 / 2 ^ 25"
proof -
  have x3: "\<bar>v / 2\<bar> \<le> 1 / 2" using assms by (simp add: abs_le_iff)
  from fl32_half[OF x3] have h: "\<bar>fl32 (v / 2)\<bar> \<le> 1 / 2"
    and he: "\<bar>fl32 (v / 2) - v / 2\<bar> \<le> 1 / 2 ^ 25" by simp_all
  from h have lo: "0 \<le> fl32 (v / 2) + 0.5" and hi: "fl32 (v / 2) + 0.5 \<le> 1"
    by (simp_all add: abs_le_iff)
  from lo show "0 \<le> fl32 (fl32 (v / 2) + 0.5)" by (rule fl32_nonneg)
  from lo hi have x4: "\<bar>fl32 (v / 2) + 0.5\<bar> \<le> 1" by simp
  from fl32_unit[OF x4] have u: "\<bar>fl32 (fl32 (v / 2) + 0.5)\<bar> \<le> 1"
    and ue: "\<bar>fl32 (fl32 (v / 2) + 0.5) - (fl32 (v / 2) + 0.5)\<bar> \<le> 1 / 2 ^ 24"
    by simp_all
  from u show "fl32 (fl32 (v / 2) + 0.5) \<le> 1" by simp
  from he have "\<bar>(fl32 (v / 2) + 0.5) - (v / 2 + 1 / 2)\<bar> \<le> 1 / 2 ^ 25" by simp
  from close_trans[OF ue this]
  show "\<bar>fl32 (fl32 (v / 2) + 0.5) - (v / 2 + 1 / 2)\<bar> \<le> 3 / 2 ^ 25" by simp
qed

lemma round_trip_pixel:
  assumes "0 \<le> p" and "p \<le> 1"
  shows "\<bar>fl32 (fl32 (fl32 (fl32 (p - fl32 0.5) / fl32 0.5) / 2) + 0.5) - p\<bar> \<le> 5 / 2 ^ 25"
proof -
  let ?q = "fl32 (p - fl32 0.5)"
  let ?n = "fl32 (?q / fl32 0.5)"
  from normalize_pixel[OF assms] have qe: "\<bar>?q - (p - 1 / 2)\<bar> \<le> 1 / 2 ^ 25"
    and n: "\<bar>?n\<bar> \<le> 1" and ne: "\<bar>?n - 2 * ?q\<bar> \<le> 1 / 2 ^ 24" by simp_all
  from n have "- 1 \<le> ?n" "?n \<le> 1" by simp_all
  from unnormalize_pixel(3)[OF this]
  have ue: "\<bar>fl32 (fl32 (?n / 2) + 0.5) - (?n / 2 + 1 / 2)\<bar> \<le> 3 / 2 ^ 25" .
  from close_trans[OF ue close_halved[OF ne]]
  have "\<bar>fl32 (fl32 (?n / 2) + 0.5) - (?q + 1 / 2)\<bar> \<le> 3 / 2 ^ 25 + 1 / 2 ^ 24 / 2" .
  from close_trans[OF this close_shifted[OF qe]] show ?thesis by simp
qed

text \<open>The same, for whole images.\<close>

lemma pixels_within_iff:
  "pixels_within lo hi img \<longleftrightarrow>
     (\<forall>ch \<in> set img. \<forall>row \<in> set ch. \<forall>v \<in> set row. lo \<le> v \<and> v \<le> hi)"
  by (simp add: pixels_within_def list_all_iff)

lemma pixels_close_map:
  "pixels_close eps (map (map (map f)) img) img \<longleftrightarrow>
     (\<forall>ch \<in> set img. \<forall>row \<in> set ch. \<forall>v \<in> set row. \<bar>f v - v\<bar> \<le> eps)"
  by (simp add: pixels_close_def list_all2_map1 list_all2_same)

lemma transform_Normalize_three:
  "length img = 3 \<Longrightarrow>
   transform_Normalize img
     = Inr (map (map (map (\<lambda>v. fl32 (fl32 (v - fl32 0.5) / fl32 0.5)))) img)"
proof -
  assume "length img = 3"
  then obtain r g b where img: "img = [r, g, b]"
    by (auto simp: numeral_3_eq_3 length_Suc_conv)
  have std: "\<not> list_ex (\<lambda>s. fl32 s = 0) [0.5, 0.5, 0.5]"
    using fl32_one_half_nonzero by (simp only: list_ex_iff set_simps) blast
  show ?thesis
    unfolding img transform_Normalize_def Normalize_def
    by (simp only: std if_False) simp
qed

lemma pixels_within_map:
  assumes "\<And>v. lo \<le> v \<Longrightarrow> v \<le> hi \<Longrightarrow> lo' \<le> f v \<and> f v \<le> hi'"
    and "pixels_within lo hi img"
  shows "pixels_within lo' hi' (map (map (map f)) img)"
  using assms by (auto simp: pixels_within_def list_all_iff)

lemma normalize_within:
  assumes "pixels_within 0 1 img"
  shows "pixels_within (- 1) 1 (map (map (map (\<lambda>v. fl32 (fl32 (v - fl32 0.5) / fl32 0.5)))) img)"
proof (rule pixels_within_map[OF _ assms])
  fix p :: real
  assume "0 \<le> p" "p \<le> 1"
  from normalize_pixel(3)[OF this]
  show "- 1 \<le> fl32 (fl32 (p - fl32 0.5) / fl32 0.5) \<and> fl32 (fl32 (p - fl32 0.5) / fl32 0.5) \<le> 1"
    by (simp add: abs_le_iff)
qed

lemma unnormalize_within:
  assumes "pixels_within (- 1) 1 m"
  shows "pixels_within 0 1 (unnormalize m)"
  unfolding unnormalize_def
proof (rule pixels_within_map[OF _ assms])
  fix v :: real
  assume "- 1 \<le> v" "v \<le> 1"
  from unnormalize_pixel(1,2)[OF this]
  show "0 \<le> fl32 (fl32 (v / 2) + 0.5) \<and> fl32 (fl32 (v / 2) + 0.5) \<le> 1"
    by simp
qed

lemma round_trip_close:
  assumes "pixels_within 0 1 img"
  shows "pixels_close (5 / 2 ^ 25)
     (unnormalize (map (map (map (\<lambda>v. fl32 (fl32 (v - fl32 0.5) / fl32 0.5)))) img)) img"
proof -
  have "unnormalize (map (map (map (\<lambda>v. fl32 (fl32 (v - fl32 0.5) / fl32 0.5)))) img)
      = map (map (map (\<lambda>p. fl32 (fl32 (fl32 (fl32 (p - fl32 0.5) / fl32 0.5) / 2) + 0.5)))) img"
    by (simp add: unnormalize_def o_def)
  moreover have "\<forall>ch \<in> set img. \<forall>row \<in> set ch. \<forall>p \<in> set row.
      \<bar>fl32 (fl32 (fl32 (fl32 (p - fl32 0.5) / fl32 0.5) / 2) + 0.5) - p\<bar> \<le> 5 / 2 ^ 25"
    using assms round_trip_pixel unfolding pixels_within_iff by blast
  ultimately show ?thesis
    by (simp only: pixels_close_map)
qed

text \<open>
  Claim C9, amended. On the 32-bit float tensors of the notebook the unnormalisation
  \<open>img / 2 + 0.5\<close> of \<^verbatim>\<open>imshow\<close> undoes the transform's
  \<^verbatim>\<open>Normalize(mean=[0.5, 0.5, 0.5], std=[0.5, 0.5, 0.5])\<close> up to rounding: on a
  three-channel image with pixel values in [0, 1], normalising gives values in [-1, 1],
  and unnormalising these gives back every pixel value to within \<open>5 / 2 ^ 25\<close>; every
  image with values in [-1, 1] is mapped back into [0, 1].
\<close>

theorem unnormalize_inverts_Normalize_up_to_rounding:
  "(length img = 3 \<and> pixels_within 0 1 img \<longrightarrow>
      (\<exists>n. transform_Normalize img = Inr n \<and> pixels_within (- 1) 1 n
        \<and> pixels_close (5 / 2 ^ 25) (unnormalize n) img))
   \<and> (pixels_within (- 1) 1 m \<longrightarrow> pixels_within 0 1 (unnormalize m))"
proof (intro conjI impI)
  assume a: "length img = 3 \<and> pixels_within 0 1 img"
  let ?n = "map (map (map (\<lambda>v. fl32 (fl32 (v - fl32 0.5) / fl32 0.5)))) img"
  from a have "transform_Normalize img = Inr ?n"
    using transform_Normalize_three by blast
  moreover from a have "pixels_within (- 1) 1 ?n"
    using normalize_within by blast
  moreover from a have "pixels_close (5 / 2 ^ 25) (unnormalize ?n) img"
    using round_trip_close by blast
  ultimately show "\<exists>n. transform_Normalize img = Inr n \<and> pixels_within (- 1) 1 n
        \<and> pixels_close (5 / 2 ^ 25) (unnormalize n) img"
    by blast
next
  assume "pixels_within (- 1) 1 m"
  then show "pixels_within 0 1 (unnormalize m)" by (rule unnormalize_within)
qed

text \<open>
  The byte 1 becomes the float \<open>8421505 / 2 ^ 31\<close>; normalised it is
  \<open>- 8322815 / 2 ^ 23\<close>, and unnormalised again \<open>65793 / 2 ^ 24\<close>.
\<close>

lemma ToTensor_pixel_1: "ToTensor_pixel 1 = 8421505 / 2 ^ 31"
  unfolding ToTensor_pixel_def by code_simp

lemma normalize_dark: "fl32 (fl32 (8421505 / 2 ^ 31 - fl32 0.5) / fl32 0.5) = - 8322815 / 2 ^ 23"
  by code_simp

lemma unnormalize_dark: "fl32 (fl32 ((- 8322815 / 2 ^ 23) / 2) + 0.5) = 65793 / 2 ^ 24"
  by code_simp

lemma dark_pixel_eq:
  "dark_pixel = [[[8421505 / 2 ^ 31]], [[8421505 / 2 ^ 31]], [[8421505 / 2 ^ 31]]]"
  unfolding dark_pixel_def ToTensor_pixel_1 by (rule refl)

lemma dark_pixel_normalized:
  "transform_Normalize dark_pixel
     = Inr [[[- 8322815 / 2 ^ 23]], [[- 8322815 / 2 ^ 23]], [[- 8322815 / 2 ^ 23]]]"
  using transform_Normalize_three[of dark_pixel]
  unfolding dark_pixel_eq by (simp only: normalize_dark list.map list.size)

lemma dark_pixel_unnormalized:
  "unnormalize [[[- 8322815 / 2 ^ 23]], [[- 8322815 / 2 ^ 23]], [[- 8322815 / 2 ^ 23]]]
     = [[[65793 / 2 ^ 24]], [[65793 / 2 ^ 24]], [[65793 / 2 ^ 24]]]"
  unfolding unnormalize_def by (simp only: unnormalize_dark list.map)

text \<open>
  Normalising and then unnormalising does not return every pixel value: the pixel of
  byte 1 comes back changed.
\<close>

theorem unnormalize_Normalize_counterexample:
  "pixels_within 0 1 dark_pixel
   \<and> dark_pixel = [[[8421505 / 2 ^ 31]], [[8421505 / 2 ^ 31]], [[8421505 / 2 ^ 31]]]
   \<and> transform_Normalize dark_pixel
        = Inr [[[- 8322815 / 2 ^ 23]], [[- 8322815 / 2 ^ 23]], [[- 8322815 / 2 ^ 23]]]
   \<and> unnormalize [[[- 8322815 / 2 ^ 23]], [[- 8322815 / 2 ^ 23]], [[- 8322815 / 2 ^ 23]]]
        = [[[65793 / 2 ^ 24]], [[65793 / 2 ^ 24]], [[65793 / 2 ^ 24]]]
   \<and> unnormalize [[[- 8322815 / 2 ^ 23]], [[- 8322815 / 2 ^ 23]], [[- 8322815 / 2 ^ 23]]]
        \<noteq> dark_pixel"
proof -
  have "pixels_within 0 1 dark_pixel"
    unfolding dark_pixel_eq by (simp add: pixels_within_def)
  moreover have "[[[65793 / 2 ^ 24]], [[65793 / 2 ^ 24]], [[65793 / 2 ^ 24]]] \<noteq> dark_pixel"
    unfolding dark_pixel_eq by simp
  ultimately show ?thesis
    using dark_pixel_eq dark_pixel_normalized dark_pixel_unnormalized by simp
qed

theorem unnormalize_inverts_Normalize_up_to_rounding_witness:
  "length dark_pixel = 3 \<and> pixels_within 0 1 dark_pixel
   \<and> transform_Normalize dark_pixel
        = Inr [[[- 8322815 / 2 ^ 23]], [[- 8322815 / 2 ^ 23]], [[- 8322815 / 2 ^ 23]]]
   \<and> pixels_within (- 1) 1 [[[- 8322815 / 2 ^ 23]], [[- 8322815 / 2 ^ 23]], [[- 8322815 / 2 ^ 23]]]
   \<and> pixels_close (5 / 2 ^ 25)
        (unnormalize [[[- 8322815 / 2 ^ 23]], [[- 8322815 / 2 ^ 23]], [[- 8322815 / 2 ^ 23]]])
        dark_pixel
   \<and> pixels_within 0 1
        (unnormalize [[[- 8322815 / 2 ^ 23]], [[- 8322815 / 2 ^ 23]], [[- 8322815 / 2 ^ 23]]])"
proof -
  let ?n = "[[[- 8322815 / 2 ^ 23]], [[- 8322815 / 2 ^ 23]], [[- 8322815 / 2 ^ 23 :: real]]]"
  have len: "length dark_pixel = 3" unfolding dark_pixel_eq by simp
  have rng: "pixels_within 0 1 dark_pixel"
    unfolding dark_pixel_eq by (simp add: pixels_within_def)
  from unnormalize_inverts_Normalize_up_to_rounding[of dark_pixel ?n] len rng
  obtain n where n: "transform_Normalize dark_pixel = Inr n" "pixels_within (- 1) 1 n"
      "pixels_close (5 / 2 ^ 25) (unnormalize n) dark_pixel"
    and rev: "pixels_within (- 1) 1 ?n \<longrightarrow> pixels_within 0 1 (unnormalize ?n)"
    by blast
  from n(1) have "n = ?n" unfolding dark_pixel_normalized by simp
  with n rev len rng dark_pixel_normalized show ?thesis by simp
qed


section \<open>Theorems: loading the images, failures\<close>

lemma image_loader_size:
  "Image_open name = Inr pic \<Longrightarrow>
   image_loader Image_open cuda name = Inr [1, bands pic, imsize cuda, imsize cuda]"
  by (simp add: image_loader_def unsqueeze0_def image_transform_fn_def ToTensor_size_def
        Resize_def)

lemma image_loader_error:
  "Image_open name = Inl e \<Longrightarrow> image_loader Image_open cuda name = Inl e"
  by (simp add: image_loader_def)

lemma load_images_opened:
  assumes "Image_open style_image_path = Inr s" and "Image_open content_image_path = Inr c"
  shows "load_images Image_open cuda =
     (if bands s = bands c
      then Inr ([1, bands s, imsize cuda, imsize cuda], [1, bands c, imsize cuda, imsize cuda])
      else Inl (AssertionError ''we need to import style and content images of the same size''))"
  using assms by (simp add: load_images_def image_loader_size)

text \<open>
  Claim C8. \<^verbatim>\<open>image_loader\<close> resizes every image to \<open>(imsize, imsize)\<close> and prepends a
  batch dimension: when both files open, the loaded tensors have the sizes
  \<open>(1, c, imsize, imsize)\<close> for their channel counts \<open>c\<close>; with equal channel counts the
  assertion \<^verbatim>\<open>style_image.size() == content_image.size()\<close> holds, and the assertion fails
  exactly when the channel counts differ.
\<close>

theorem image_loader_sizes_agree:
  assumes "Image_open style_image_path = Inr s" and "Image_open content_image_path = Inr c"
  shows "image_loader Image_open cuda style_image_path
           = Inr [1, bands s, imsize cuda, imsize cuda]
     \<and> image_loader Image_open cuda content_image_path
           = Inr [1, bands c, imsize cuda, imsize cuda]
     \<and> (bands s = bands c \<longrightarrow>
           load_images Image_open cuda
             = Inr ([1, bands s, imsize cuda, imsize cuda], [1, bands s, imsize cuda, imsize cuda]))
     \<and> ((\<exists>msg. load_images Image_open cuda = Inl (AssertionError msg))
           \<longleftrightarrow> bands s \<noteq> bands c)"
  using assms by (simp add: image_loader_size load_images_opened)

lemma files_rgb_rgb_open:
  "files_rgb_rgb style_image_path = Inr \<lparr>bands = 3, height = 600, width = 800\<rparr>"
  "files_rgb_rgb content_image_path = Inr \<lparr>bands = 3, height = 480, width = 640\<rparr>"
  by (simp_all add: files_rgb_rgb_def style_image_path_def content_image_path_def)

theorem image_loader_sizes_agree_witness:
  "files_rgb_rgb style_image_path = Inr \<lparr>bands = 3, height = 600, width = 800\<rparr>
   \<and> files_rgb_rgb content_image_path = Inr \<lparr>bands = 3, height = 480, width = 640\<rparr>
   \<and> image_loader files_rgb_rgb False style_image_path = Inr [1, 3, 128, 128]
   \<and> image_loader files_rgb_rgb False content_image_path = Inr [1, 3, 128, 128]
   \<and> load_images files_rgb_rgb False = Inr ([1, 3, 128, 128], [1, 3, 128, 128])"
  using image_loader_sizes_agree[OF files_rgb_rgb_open, of False] files_rgb_rgb_open
  by (simp add: imsize_def)

lemma load_images_rgb_grey:
  "load_images files_rgb_grey False
     = Inl (AssertionError ''we need to import style and content images of the same size'')"
  by (simp add: load_images_def image_loader_def files_rgb_grey_def style_image_path_def
        content_image_path_def unsqueeze0_def image_transform_fn_def ToTensor_size_def
        Resize_def)

text \<open>
  The cell that loads the images asserts a condition of the notebook's own, with a
  message of its own: with a colour style image and a greyscale content image it ends
  in that \<^verbatim>\<open>AssertionError\<close>.
\<close>

theorem load_images_assertion_counterexample:
  "load_images files_rgb_grey False
     = Inl (AssertionError ''we need to import style and content images of the same size'')"
  by (rule load_images_rgb_grey)

lemma load_images_style_raises:
  "Image_open style_image_path = Inl e \<Longrightarrow> load_images Image_open cuda = Inl e"
  by (simp add: load_images_def image_loader_def)

lemma load_images_content_raises:
  "Image_open style_image_path = Inr pic \<Longrightarrow> Image_open content_image_path = Inl e \<Longrightarrow>
   load_images Image_open cuda = Inl e"
  by (simp add: load_images_def image_loader_def)

text \<open>
  An iteration of the train loop, call by call: the first call that raises ends it with
  that exception, and only what the optimizer and the writer did before is in the state.
\<close>

lemma train_iteration_calls:
  "(to_device tr (store s ph) = Inl e \<longrightarrow> train_iteration tr epoch l s (ph, mp) = (s, Some e))
   \<and> (to_device tr (store s ph) = Inr x \<longrightarrow>
      (to_device tr (store s mp) = Inl e \<longrightarrow> train_iteration tr epoch l s (ph, mp) = (s, Some e))
    \<and> (to_device tr (store s mp) = Inr t \<longrightarrow>
      (model tr (store s) x = Inl e \<longrightarrow> train_iteration tr epoch l s (ph, mp) = (s, Some e))
    \<and> (model tr (store s) x = Inr y \<longrightarrow>
      (criterion tr y t = Inl e \<longrightarrow> train_iteration tr epoch l s (ph, mp) = (s, Some e))
    \<and> (criterion tr y t = Inr loss \<longrightarrow>
      (backward tr (store s) x t = Inl e \<longrightarrow>
         train_iteration tr epoch l s (ph, mp) = (s, Some e))
    \<and> (backward tr (store s) x t = Inr grads \<longrightarrow>
      (opt_step (adam tr) (parameters tr) grads (opt_state s, store s) = ((ost, st), Some e) \<longrightarrow>
         train_iteration tr epoch l s (ph, mp) = (s\<lparr>store := st, opt_state := ost\<rparr>, Some e))
    \<and> (opt_step (adam tr) (parameters tr) grads (opt_state s, store s) = ((ost, st), None) \<longrightarrow>
      (write_events (add_event tr) (writer s)
         (Scalar ''train/loss'' loss (epoch * l + n_iters s) #
          (if n_iters s mod 50 = 0
           then [Image ''train/photo_image'' (epoch * l + n_iters s),
                 Image ''train/map_image_pred'' (epoch * l + n_iters s),
                 Image ''train/map_image_gt'' (epoch * l + n_iters s)]
           else [])) = (w, Some e) \<longrightarrow>
         train_iteration tr epoch l s (ph, mp)
           = (s\<lparr>store := st, opt_state := ost, writer := w\<rparr>, Some e))
    \<and> (write_events (add_event tr) (writer s)
         (Scalar ''train/loss'' loss (epoch * l + n_iters s) #
          (if n_iters s mod 50 = 0
           then [Image ''train/photo_image'' (epoch * l + n_iters s),
                 Image ''train/map_image_pred'' (epoch * l + n_iters s),
                 Image ''train/map_image_gt'' (epoch * l + n_iters s)]
           else [])) = (w, None) \<longrightarrow>
         train_iteration tr epoch l s (ph, mp)
           = (\<lparr>store = st, opt_state = ost, writer = w, n_iters = n_iters s + 1\<rparr>, None))))))))"
  by (intro conjI impI)
     (simp_all add: train_iteration_def Let_def del: write_events.simps opt_step.simps)

text \<open>A loop that has completed some batches goes on with the rest from where it is.\<close>

lemma run_batches_append:
  "run_batches tr epoch l s bs = (s1, None) \<Longrightarrow>
   run_batches tr epoch l s (bs @ cs) = run_batches tr epoch l s1 cs"
proof (induction bs arbitrary: s)
  case Nil
  then show ?case by simp
next
  case (Cons b bs)
  show ?case
  proof (cases b)
    case (Inl e)
    with Cons.prems show ?thesis by simp
  next
    case (Inr batch)
    obtain s' r where it: "train_iteration tr epoch l s batch = (s', r)"
      by (cases "train_iteration tr epoch l s batch")
    show ?thesis
    proof (cases r)
      case (Some e)
      with Cons.prems Inr it show ?thesis by simp
    next
      case None
      with Cons.prems Inr it have "run_batches tr epoch l s' bs = (s1, None)" by simp
      from Cons.IH[OF this] Inr it None show ?thesis by simp
    qed
  qed
qed

lemma run_epochs_append:
  "run_epochs tr dl s es = (s1, None) \<Longrightarrow>
   run_epochs tr dl s (es @ fs) = run_epochs tr dl s1 fs"
proof (induction es arbitrary: s)
  case Nil
  then show ?case by simp
next
  case (Cons ep es)
  obtain s' r where rb:
    "run_batches tr ep (len dl) (s\<lparr>n_iters := 0\<rparr>) (iterate dl ep) = (s', r)"
    by (cases "run_batches tr ep (len dl) (s\<lparr>n_iters := 0\<rparr>) (iterate dl ep)")
  show ?case
  proof (cases r)
    case (Some e)
    with Cons.prems rb show ?thesis by simp
  next
    case None
    with Cons.prems rb have "run_epochs tr dl s' es = (s1, None)" by simp
    from Cons.IH[OF this] rb None show ?thesis by simp
  qed
qed

lemma run_batches_stops_at_fetch:
  assumes "run_batches tr epoch l s bs = (s1, None)"
  shows "run_batches tr epoch l s (bs @ Inl e # rest) = (s1, Some e)"
  unfolding run_batches_append[OF assms] by simp

lemma run_batches_stops_at_iteration:
  assumes "run_batches tr epoch l s bs = (s1, None)"
    and "train_iteration tr epoch l s1 batch = (s2, Some e)"
  shows "run_batches tr epoch l s (bs @ Inr batch # rest) = (s2, Some e)"
  unfolding run_batches_append[OF assms(1)] using assms(2) by simp

lemma train_stops_at_epoch:
  assumes "train tr dl k s = (s1, None)" and "k < n_epochs"
    and "run_batches tr k (len dl) (s1\<lparr>n_iters := 0\<rparr>) (iterate dl k) = (s2, Some e)"
  shows "train tr dl n_epochs s = (s2, Some e)"
proof -
  from assms(2) obtain m where "n_epochs = Suc (k + m)"
    using less_imp_Suc_add by blast
  then have n: "n_epochs = k + Suc m" by simp
  have sp: "[0..<k + Suc m] = [0..<k] @ [k..<k + Suc m]"
    by (rule upt_add_eq_append) simp
  have hd: "[k..<k + Suc m] = k # [Suc k..<k + Suc m]"
    by (rule upt_conv_Cons) simp
  have "train tr dl n_epochs s = run_epochs tr dl s ([0..<k] @ k # [Suc k..<k + Suc m])"
    unfolding train_def n sp hd by (rule refl)
  also have "\<dots> = run_epochs tr dl s1 (k # [Suc k..<k + Suc m])"
    using assms(1) unfolding train_def by (rule run_epochs_append)
  also have "\<dots> = (s2, Some e)"
    unfolding run_epochs.simps assms(3) by simp
  finally show ?thesis .
qed

text \<open>
  Claim C5, amended. The notebooks have no error taxonomy, no retry and no recovery: an
  exception of the framework ends the cell and is passed on as it is. Loading the images
  ends with the exception of the first \<^verbatim>\<open>Image.open\<close> that raises. An iteration of the
  train loop ends with the exception of its first call that raises (moving the batch to
  the device, the model, the criterion, \<^verbatim>\<open>backward\<close>, the optimizer's step, the writer),
  the inner loop ends with the exception of the first batch that cannot be drawn or the
  first iteration that raises, and the run ends with it: no later batch and no later
  epoch is run. The one condition the notebooks raise themselves is the assertion that
  the style and content tensors have the same size, which fails when the two images
  differ in channel count.
\<close>

theorem failures_end_the_cell:
  "(Image_open style_image_path = Inl e \<longrightarrow> load_images Image_open cuda = Inl e)
   \<and> (Image_open style_image_path = Inr pic \<and> Image_open content_image_path = Inl e \<longrightarrow>
        load_images Image_open cuda = Inl e)
   \<and> (Image_open style_image_path = Inr pic \<and> Image_open content_image_path = Inr pic'
        \<and> bands pic \<noteq> bands pic' \<longrightarrow>
        load_images Image_open cuda
          = Inl (AssertionError ''we need to import style and content images of the same size''))
   \<and> (to_device tr (store s ph) = Inl e \<longrightarrow> train_iteration tr epoch l s (ph, mp) = (s, Some e))
   \<and> (to_device tr (store s ph) = Inr x \<longrightarrow>
      (to_device tr (store s mp) = Inl e \<longrightarrow> train_iteration tr epoch l s (ph, mp) = (s, Some e))
    \<and> (to_device tr (store s mp) = Inr t \<longrightarrow>
      (model tr (store s) x = Inl e \<longrightarrow> train_iteration tr epoch l s (ph, mp) = (s, Some e))
    \<and> (model tr (store s) x = Inr y \<longrightarrow>
      (criterion tr y t = Inl e \<longrightarrow> train_iteration tr epoch l s (ph, mp) = (s, Some e))
    \<and> (criterion tr y t = Inr loss \<longrightarrow>
      (backward tr (store s) x t = Inl e \<longrightarrow>
         train_iteration tr epoch l s (ph, mp) = (s, Some e))
    \<and> (backward tr (store s) x t = Inr grads \<longrightarrow>
      (opt_step (adam tr) (parameters tr) grads (opt_state s, store s) = ((ost, st), Some e) \<longrightarrow>
         train_iteration tr epoch l s (ph, mp) = (s\<lparr>store := st, opt_state := ost\<rparr>, Some e))
    \<and> (opt_step (adam tr) (parameters tr) grads (opt_state s, store s) = ((ost, st), None) \<longrightarrow>
      (write_events (add_event tr) (writer s)
         (Scalar ''train/loss'' loss (epoch * l + n_iters s) #
          (if n_iters s mod 50 = 0
           then [Image ''train/photo_image'' (epoch * l + n_iters s),
                 Image ''train/map_image_pred'' (epoch * l + n_iters s),
                 Image ''train/map_image_gt'' (epoch * l + n_iters s)]
           else [])) = (w, Some e) \<longrightarrow>
         train_iteration tr epoch l s (ph, mp)
           = (s\<lparr>store := st, opt_state := ost, writer := w\<rparr>, Some e))
    \<and> (write_events (add_event tr) (writer s)
         (Scalar ''train/loss'' loss (epoch * l + n_iters s) #
          (if n_iters s mod 50 = 0
           then [Image ''train/photo_image'' (epoch * l + n_iters s),
                 Image ''train/map_image_pred'' (epoch * l + n_iters s),
                 Image ''train/map_image_gt'' (epoch * l + n_iters s)]
           else [])) = (w, None) \<longrightarrow>
         train_iteration tr epoch l s (ph, mp)
           = (\<lparr>store = st, opt_state = ost, writer = w, n_iters = n_iters s + 1\<rparr>, None))))))))
   \<and> (run_batches tr epoch l s0 bs = (s, None) \<longrightarrow>
        run_batches tr epoch l s0 (bs @ Inl e # rest) = (s, Some e))
   \<and> (run_batches tr epoch l s0 bs = (s, None)
        \<and> train_iteration tr epoch l s (ph, mp) = (s', Some e) \<longrightarrow>
        run_batches tr epoch l s0 (bs @ Inr (ph, mp) # rest) = (s', Some e))
   \<and> (train tr dl k s1 = (s2, None) \<and> k < n_epochs
        \<and> run_batches tr k (len dl) (s2\<lparr>n_iters := 0\<rparr>) (iterate dl k) = (s3, Some e) \<longrightarrow>
        train tr dl n_epochs s1 = (s3, Some e))"
proof -
  note b = train_iteration_calls[of tr s ph e epoch l mp x t y loss grads ost st w]
  have a1: "Image_open style_image_path = Inl e \<longrightarrow> load_images Image_open cuda = Inl e"
    using load_images_style_raises[of Image_open e cuda] by (rule impI)
  have a2: "Image_open style_image_path = Inr pic \<and> Image_open content_image_path = Inl e \<longrightarrow>
        load_images Image_open cuda = Inl e"
    using load_images_content_raises[of Image_open pic e cuda] by (intro impI) (elim conjE)
  have a3: "Image_open style_image_path = Inr pic \<and> Image_open content_image_path = Inr pic'
        \<and> bands pic \<noteq> bands pic' \<longrightarrow>
        load_images Image_open cuda
          = Inl (AssertionError ''we need to import style and content images of the same size'')"
    using load_images_opened[of Image_open pic pic' cuda] by (intro impI) (elim conjE, simp)
  have c1: "run_batches tr epoch l s0 bs = (s, None) \<longrightarrow>
        run_batches tr epoch l s0 (bs @ Inl e # rest) = (s, Some e)"
    using run_batches_stops_at_fetch[of tr epoch l s0 bs s e rest] by (rule impI)
  have c2: "run_batches tr epoch l s0 bs = (s, None)
        \<and> train_iteration tr epoch l s (ph, mp) = (s', Some e) \<longrightarrow>
        run_batches tr epoch l s0 (bs @ Inr (ph, mp) # rest) = (s', Some e)"
    using run_batches_stops_at_iteration[of tr epoch l s0 bs s "(ph, mp)" s' e rest]
    by (intro impI) (elim conjE)
  have d: "train tr dl k s1 = (s2, None) \<and> k < n_epochs
        \<and> run_batches tr k (len dl) (s2\<lparr>n_iters := 0\<rparr>) (iterate dl k) = (s3, Some e) \<longrightarrow>
        train tr dl n_epochs s1 = (s3, Some e)"
    using train_stops_at_epoch[of tr dl k s1 s2 n_epochs s3 e] by (intro impI) (elim conjE)
  show ?thesis
    by (rule conjI[OF a1 conjI[OF a2 conjI[OF a3 conjI[OF conjunct1[OF b]
          conjI[OF conjunct2[OF b] conjI[OF c1 conjI[OF c2 d]]]]]]])
qed

lemma load_images_missing:
  "files_missing style_image_path = Inl (FrameworkError ''FileNotFoundError'')"
  by (simp add: files_missing_def)

lemma files_rgb_grey_open:
  "files_rgb_grey style_image_path = Inr \<lparr>bands = 3, height = 600, width = 800\<rparr>"
  "files_rgb_grey content_image_path = Inr \<lparr>bands = 1, height = 480, width = 640\<rparr>"
  by (simp_all add: files_rgb_grey_def style_image_path_def content_image_path_def)

lemma train_raising_first_batch:
  "run_batches trainer_raising 0 2 (train_state1\<lparr>n_iters := 0\<rparr>) [Inr (0, 1)]
     = (train_state1_after, None)"
  by (simp add: trainer_raising_def trainer0_def train_state1_def train_state1_after_def
        train_iteration_def)

lemma train_raising_calls:
  "to_device trainer_raising (store train_state1_after 2) = Inr (- 1)"
  "to_device trainer_raising (store train_state1_after 1) = Inr 0"
  "model trainer_raising (store train_state1_after) (- 1) = Inl (FrameworkError ''RuntimeError'')"
  by (simp_all add: trainer_raising_def trainer0_def train_state1_after_def)

lemma iterate_dataloader1: "iterate dataloader1 0 = [Inr (0, 1)] @ Inr (2, 1) # []"
  by (simp add: iterate_def dataloader1_def upt_rec numeral_2_eq_2)

theorem failures_end_the_cell_witness:
  "load_images files_missing False = Inl (FrameworkError ''FileNotFoundError'')
   \<and> load_images files_rgb_grey False
        = Inl (AssertionError ''we need to import style and content images of the same size'')
   \<and> train_iteration trainer_raising 0 2 train_state1_after (2, 1)
        = (train_state1_after, Some (FrameworkError ''RuntimeError''))
   \<and> run_batches trainer_raising 0 2 (train_state1\<lparr>n_iters := 0\<rparr>) (iterate dataloader1 0)
        = (train_state1_after, Some (FrameworkError ''RuntimeError''))
   \<and> train trainer_raising dataloader1 2 train_state1
        = (train_state1_after, Some (FrameworkError ''RuntimeError''))"
proof -
  let ?e = "FrameworkError ''RuntimeError''"
  note missing = failures_end_the_cell[where Image_open = files_missing
      and e = "FrameworkError ''FileNotFoundError''" and cuda = False]
  have m: "load_images files_missing False = Inl (FrameworkError ''FileNotFoundError'')"
    by (rule mp[OF conjunct1[OF missing] load_images_missing])
  note inst = failures_end_the_cell[where Image_open = files_rgb_grey and cuda = False
      and pic = "\<lparr>bands = 3, height = 600, width = 800\<rparr>"
      and pic' = "\<lparr>bands = 1, height = 480, width = 640\<rparr>"
      and e = ?e and tr = trainer_raising and epoch = 0 and l = 2
      and s = train_state1_after and ph = 2 and mp = 1 and x = "- 1" and t = 0
      and s0 = "train_state1\<lparr>n_iters := 0\<rparr>" and bs = "[Inr (0, 1)]" and rest = "[]"
      and s' = train_state1_after and dl = dataloader1 and k = 0 and ?s1.0 = train_state1
      and ?s2.0 = train_state1 and n_epochs = 2 and ?s3.0 = train_state1_after]
  note assertion = inst[THEN conjunct2, THEN conjunct2, THEN conjunct1]
  note calls = inst[THEN conjunct2, THEN conjunct2, THEN conjunct2, THEN conjunct2,
      THEN conjunct1]
  note loop = inst[THEN conjunct2, THEN conjunct2, THEN conjunct2, THEN conjunct2,
      THEN conjunct2, THEN conjunct2, THEN conjunct1]
  note run = inst[THEN conjunct2, THEN conjunct2, THEN conjunct2, THEN conjunct2,
      THEN conjunct2, THEN conjunct2, THEN conjunct2]
  have differ: "bands \<lparr>bands = 3, height = 600, width = 800\<rparr>
                  \<noteq> bands \<lparr>bands = 1, height = 480, width = 640\<rparr>"
    by simp
  have a: "load_images files_rgb_grey False
        = Inl (AssertionError ''we need to import style and content images of the same size'')"
    by (rule mp[OF assertion conjI[OF files_rgb_grey_open(1)
          conjI[OF files_rgb_grey_open(2) differ]]])
  have it: "train_iteration trainer_raising 0 2 train_state1_after (2, 1)
              = (train_state1_after, Some ?e)"
    by (rule mp[OF conjunct1[OF mp[OF conjunct2[OF mp[OF calls train_raising_calls(1)]]
          train_raising_calls(2)]] train_raising_calls(3)])
  have rb: "run_batches trainer_raising 0 2 (train_state1\<lparr>n_iters := 0\<rparr>)
              ([Inr (0, 1)] @ Inr (2, 1) # []) = (train_state1_after, Some ?e)"
    by (rule mp[OF loop conjI[OF train_raising_first_batch it]])
  have t0: "train trainer_raising dataloader1 0 train_state1 = (train_state1, None)"
    by (simp add: train_def)
  have ln: "len dataloader1 = 2" by (simp add: dataloader1_def)
  have rb': "run_batches trainer_raising 0 (len dataloader1) (train_state1\<lparr>n_iters := 0\<rparr>)
               (iterate dataloader1 0) = (train_state1_after, Some ?e)"
    unfolding ln iterate_dataloader1 by (rule rb)
  have lt: "(0::nat) < 2" by simp
  have tr: "train trainer_raising dataloader1 2 train_state1 = (train_state1_after, Some ?e)"
    by (rule mp[OF run conjI[OF t0 conjI[OF lt rb']]])
  from m a it rb tr show ?thesis
    unfolding iterate_dataloader1 by (intro conjI)
qed


section \<open>Theorems: the feature extractor\<close>

lemma add_modules_in_range:
  "\<forall>x \<in> set xs. x < length feats \<Longrightarrow>
   add_modules feats xs slice = Inr (slice @ map (\<lambda>x. (str x, feats ! x)) xs)"
  by (induction xs arbitrary: slice) simp_all

lemma distinct_str_upto_23: "distinct (map str [0..<23])"
  by code_simp

lemma upt_23_split: "[0..<4] @ [4..<9] @ [9..<16] @ [16..<23] = [0..<23]"
  by code_simp

lemma Vgg16_init_slices:
  assumes "23 \<le> length feats"
  shows "Vgg16_init feats requires_grad =
     Inr \<lparr>slice1 = map (\<lambda>x. (str x, feats ! x)) [0..<4],
          slice2 = map (\<lambda>x. (str x, feats ! x)) [4..<9],
          slice3 = map (\<lambda>x. (str x, feats ! x)) [9..<16],
          slice4 = map (\<lambda>x. (str x, feats ! x)) [16..<23],
          param_requires_grad = requires_grad\<rparr>"
proof -
  have r: "\<forall>x \<in> set [a..<b]. x < length feats" if "b \<le> 23" for a b
    using that assms by auto
  show ?thesis
    unfolding Vgg16_init_def
    using assms by (simp add: add_modules_in_range[OF r])
qed

lemma Vgg16_forward_comment:
  "Vgg16_forward (\<lambda>self. comment) v x = Inl (NameError ''x_relu1_2'')"
  by (simp add: Vgg16_forward_def comment_def local_var_def)

lemma Vgg16_forward_slice_by_slice:
  "Vgg16_forward slice_by_slice v x = Inr (spec_Vgg16_forward v x)"
  by (simp add: Vgg16_forward_def slice_by_slice_def spec_Vgg16_forward_def local_var_def Let_def)

text \<open>
  Claim C3, amended. \<^verbatim>\<open>Vgg16.__init__\<close> slices the pretrained sequence at the depths 4,
  9, 16 and 23: \<open>slice1\<close> holds the layers 0-3, \<open>slice2\<close> 4-8, \<open>slice3\<close> 9-15 and
  \<open>slice4\<close> 16-22, each under the name of its index, so the four slices in a row are the
  first 23 layers in their order, each once. \<^verbatim>\<open>Vgg16.forward\<close> returns the dictionary of
  the local variables \<open>x_relu1_2\<close>, \<open>x_relu2_2\<close>, \<open>x_relu3_3\<close>, \<open>x_relu4_3\<close> that the code
  at its placeholder is to bind: with the placeholder as shipped it raises
  \<^verbatim>\<open>NameError\<close>; with code that runs the input through the slices in sequence it returns
  the four intermediate activations.
\<close>

theorem Vgg16_slices:
  assumes "23 \<le> length feats"
  shows "\<exists>v. Vgg16_init feats requires_grad = Inr v
     \<and> slice1 v = map (\<lambda>x. (str x, feats ! x)) [0..<4]
     \<and> slice2 v = map (\<lambda>x. (str x, feats ! x)) [4..<9]
     \<and> slice3 v = map (\<lambda>x. (str x, feats ! x)) [9..<16]
     \<and> slice4 v = map (\<lambda>x. (str x, feats ! x)) [16..<23]
     \<and> slice1 v @ slice2 v @ slice3 v @ slice4 v = map (\<lambda>x. (str x, feats ! x)) [0..<23]
     \<and> map snd (slice1 v @ slice2 v @ slice3 v @ slice4 v) = take 23 feats
     \<and> distinct (map fst (slice1 v @ slice2 v @ slice3 v @ slice4 v))
     \<and> Vgg16_forward (\<lambda>self. comment) v x = Inl (NameError ''x_relu1_2'')
     \<and> Vgg16_forward slice_by_slice v x = Inr (spec_Vgg16_forward v x)"
proof -
  let ?f = "\<lambda>x. (str x, feats ! x)"
  let ?v = "\<lparr>slice1 = map ?f [0..<4], slice2 = map ?f [4..<9], slice3 = map ?f [9..<16],
            slice4 = map ?f [16..<23], param_requires_grad = requires_grad\<rparr>"
  have cat: "slice1 ?v @ slice2 ?v @ slice3 ?v @ slice4 ?v = map ?f [0..<23]"
    using arg_cong[OF upt_23_split, of "map ?f"] by simp
  have "map snd (map ?f [0..<23]) = map ((!) feats) [0..<23]"
    by (simp add: o_def)
  also have "\<dots> = take 23 feats"
    using assms by (intro nth_equalityI) simp_all
  finally have snd: "map snd (slice1 ?v @ slice2 ?v @ slice3 ?v @ slice4 ?v) = take 23 feats"
    unfolding cat .
  have "map fst (map ?f [0..<23]) = map str [0..<23]"
    by (simp add: o_def)
  then have dist: "distinct (map fst (slice1 ?v @ slice2 ?v @ slice3 ?v @ slice4 ?v))"
    unfolding cat using distinct_str_upto_23 by (simp only:)
  show ?thesis
    apply (rule exI[of _ ?v])
    apply (intro conjI)
             apply (rule Vgg16_init_slices[OF assms])
            apply simp
           apply simp
          apply simp
         apply simp
        apply (rule cat)
       apply (rule snd)
      apply (rule dist)
     apply (rule Vgg16_forward_comment)
    apply (rule Vgg16_forward_slice_by_slice)
    done
qed

lemma Vgg16_init_layers0: "Vgg16_init layers0 True = Inr vgg0"
  unfolding vgg0_def by (rule Vgg16_init_slices) (simp add: layers0_def)

lemma spec_forward_vgg0:
  "spec_Vgg16_forward vgg0 0
     = [(''relu1_2'', 6), (''relu2_2'', 36), (''relu3_3'', 120), (''relu4_3'', 253)]"
  by (simp add: spec_Vgg16_forward_def vgg0_def Sequential_forward_def layers0_def upt_rec)

text \<open>
  As shipped, \<^verbatim>\<open>forward\<close> does not return the four activations: on the stand-in network
  the specification's value is defined, the method's is an exception.
\<close>

theorem Vgg16_forward_counterexample:
  "Vgg16_init layers0 True = Inr vgg0
   \<and> spec_Vgg16_forward vgg0 0
        = [(''relu1_2'', 6), (''relu2_2'', 36), (''relu3_3'', 120), (''relu4_3'', 253)]
   \<and> Vgg16_forward (\<lambda>self. comment) vgg0 (0::int) = Inl (NameError ''x_relu1_2'')
   \<and> Vgg16_forward (\<lambda>self. comment) vgg0 (0::int) \<noteq> Inr (spec_Vgg16_forward vgg0 0)"
  by (simp add: Vgg16_init_layers0 spec_forward_vgg0 Vgg16_forward_comment)

theorem Vgg16_slices_witness:
  "23 \<le> length layers0 \<and> Vgg16_init layers0 True = Inr vgg0
   \<and> map snd (slice1 vgg0 @ slice2 vgg0 @ slice3 vgg0 @ slice4 vgg0) = take 23 layers0
   \<and> Vgg16_forward slice_by_slice vgg0 (0::int)
        = Inr [(''relu1_2'', 6), (''relu2_2'', 36), (''relu3_3'', 120), (''relu4_3'', 253)]"
proof -
  have len: "23 \<le> length layers0" by (simp add: layers0_def)
  from Vgg16_slices[OF len, of True 0] obtain v where
    v: "Vgg16_init layers0 True = Inr v"
    and s: "map snd (slice1 v @ slice2 v @ slice3 v @ slice4 v) = take 23 layers0"
    and f: "Vgg16_forward slice_by_slice v 0 = Inr (spec_Vgg16_forward v 0)"
    by (elim exE conjE)
  from v Vgg16_init_layers0 have "v = vgg0" by simp
  with len s f spec_forward_vgg0 Vgg16_init_layers0 show ?thesis by simp
qed


section \<open>Theorems: what the optimizers write\<close>

lemma opt_step_frame:
  "a \<notin> set ps \<Longrightarrow> snd (fst (opt_step rule ps grads (ost, st))) a = st a"
proof (induction ps arbitrary: ost st)
  case Nil
  show ?case by simp
next
  case (Cons p ps)
  then have a: "a \<noteq> p" "a \<notin> set ps" by auto
  show ?case
  proof (cases "grads p")
    case None
    with Cons.IH[OF a(2)] show ?thesis by simp
  next
    case (Some g)
    show ?thesis
    proof (cases "rule ost (st p) g")
      case (Inl e)
      with Some show ?thesis by simp
    next
      case (Inr r)
      obtain ost' v where r: "r = (ost', v)" by (cases r)
      have "snd (fst (opt_step rule (p # ps) grads (ost, st))) a
              = snd (fst (opt_step rule ps grads (ost', st(p := v)))) a"
        using Some Inr r by simp
      also have "\<dots> = (st(p := v)) a" by (rule Cons.IH[OF a(2)])
      also have "\<dots> = st a" using a(1) by simp
      finally show ?thesis .
    qed
  qed
qed

lemma train_iteration_frame:
  assumes "a \<notin> set (parameters tr)"
  shows "store (fst (train_iteration tr epoch l s batch)) a = store s a"
proof -
  have "snd (fst (opt_step (adam tr) (parameters tr) grads (opt_state s, store s))) a = store s a"
    for grads
    by (rule opt_step_frame[OF assms])
  then have "st a = store s a"
    if "opt_step (adam tr) (parameters tr) grads (opt_state s, store s) = ((ost, st), r)"
    for grads ost st r
    using that by (metis fst_conv snd_conv)
  then show ?thesis
    unfolding train_iteration_def
    by (auto simp: Let_def split: sum.splits prod.splits option.splits)
qed

lemma run_batches_frame:
  "a \<notin> set (parameters tr) \<Longrightarrow> store (fst (run_batches tr epoch l s bs)) a = store s a"
proof (induction bs arbitrary: s)
  case Nil
  show ?case by simp
next
  case (Cons b bs)
  show ?case
  proof (cases b)
    case (Inl e)
    then show ?thesis by simp
  next
    case (Inr batch)
    let ?it = "train_iteration tr epoch l s batch"
    have fr: "store (fst ?it) a = store s a"
      by (rule train_iteration_frame[OF Cons.prems])
    show ?thesis
    proof (cases "snd ?it")
      case (Some e)
      then have "run_batches tr epoch l s (b # bs) = (fst ?it, Some e)"
        using Inr by (cases ?it) simp
      with fr show ?thesis by simp
    next
      case None
      then have "run_batches tr epoch l s (b # bs) = run_batches tr epoch l (fst ?it) bs"
        using Inr by (cases ?it) simp
      with Cons.IH[OF Cons.prems, of "fst ?it"] fr show ?thesis by simp
    qed
  qed
qed

lemma run_epochs_frame:
  "a \<notin> set (parameters tr) \<Longrightarrow> store (fst (run_epochs tr dl s es)) a = store s a"
proof (induction es arbitrary: s)
  case Nil
  show ?case by simp
next
  case (Cons ep es)
  let ?r = "run_batches tr ep (len dl) (s\<lparr>n_iters := 0\<rparr>) (iterate dl ep)"
  have fr: "store (fst ?r) a = store s a"
    using run_batches_frame[OF Cons.prems, of ep "len dl" "s\<lparr>n_iters := 0\<rparr>" "iterate dl ep"]
    by simp
  show ?case
  proof (cases "snd ?r")
    case None
    then have "run_epochs tr dl s (ep # es) = run_epochs tr dl (fst ?r) es"
      by (cases ?r) simp
    with Cons.IH[OF Cons.prems, of "fst ?r"] fr show ?thesis by simp
  next
    case (Some e)
    then have "run_epochs tr dl s (ep # es) = (fst ?r, Some e)"
      by (cases ?r) simp
    with fr show ?thesis by simp
  qed
qed

lemma style_iteration_frame:
  assumes "style_iteration sty input_image cf sf s = Inr s'" and "a \<noteq> input_image"
  shows "tensors s' a = tensors s a"
proof -
  let ?g = "loss_backward sty (tensors s)"
  let ?r = "opt_step (\<lambda>u p g. Inr (u, sgd sty p g)) [input_image] ?g ((), tensors s)"
  from assms(1) have "tensors s' = snd (fst ?r)"
    unfolding style_iteration_def
    by (auto simp: Let_def split: sum.splits prod.splits option.splits)
  moreover from assms(2) have "a \<notin> set [input_image]" by simp
  ultimately show ?thesis
    using opt_step_frame[of a "[input_image]" "\<lambda>u p g. Inr (u, sgd sty p g)" ?g "()" "tensors s"]
    by simp
qed

lemma run_style_frame:
  "a \<noteq> input_image \<Longrightarrow> tensors (fst (run_style sty input_image cf sf s es)) a = tensors s a"
proof (induction es arbitrary: s)
  case Nil
  show ?case by simp
next
  case (Cons ep es)
  let ?s1 = "show_progress sty input_image s ep"
  have sp: "tensors ?s1 = tensors s" by (simp add: show_progress_def)
  show ?case
  proof (cases "style_iteration sty input_image cf sf ?s1")
    case (Inl e)
    with sp show ?thesis by simp
  next
    case (Inr s')
    with Cons.IH[OF Cons.prems, of s'] style_iteration_frame[OF Inr Cons.prems] sp
    show ?thesis by simp
  qed
qed

lemma style_transfer_frame:
  "a \<noteq> input_image \<Longrightarrow> tensors (fst (style_transfer sty input_image n_epochs s)) a = tensors s a"
  unfolding style_transfer_def
  by (simp add: run_style_frame split: sum.splits)

text \<open>
  Claim C4. The style-transfer loop changes only the input image: the SGD optimizer is
  constructed over \<open>[input_image]\<close> alone, so every other tensor, the weights of the
  feature extractor among them, has after any number of iterations the value it had
  before. In the photo-to-map train loop the Adam optimizer is constructed over
  \<^verbatim>\<open>model.parameters()\<close> only, so every tensor outside that list, the batches among them,
  is unchanged by any number of iterations.
\<close>

theorem optimizers_change_only_their_tensors:
  "(a \<noteq> input_image \<longrightarrow>
      tensors (fst (style_transfer sty input_image n_epochs s)) a = tensors s a)
   \<and> (a' \<notin> set (parameters tr) \<longrightarrow>
        store (fst (train tr dl n_epochs' s')) a' = store s' a')"
  using style_transfer_frame[of a input_image sty n_epochs s]
    run_epochs_frame[of a' tr dl s' "[0..<n_epochs']"]
  by (simp add: train_def)


lemma style_example_run:
  "style_transfer stylist0 0 2 style_state0
     = (\<lparr>tensors = (\<lambda>a. if a = 0 then 0.785 else 1), displayed = [0.5]\<rparr>, None)"
  by (simp add: style_transfer_def stylist0_def style_state0_def style_iteration_def
        show_progress_def content_loss_layers_def style_loss_layers_def upt_rec
        numeral_2_eq_2 fun_eq_iff)

lemma train_example_run1:
  "store (fst (train trainer1 dataloader0 1 train_state0)) = (\<lambda>a. if a = 7 then - 2 else 0)"
  by (simp add: train_def trainer1_def dataloader0_def train_state0_def iterate_def
        train_iteration_def upt_rec numeral_2_eq_2 fun_eq_iff)

theorem optimizers_change_only_their_tensors_witness:
  "(1::nat) \<noteq> 0 \<and> tensors (fst (style_transfer stylist0 0 2 style_state0)) 1 = 1
   \<and> tensors style_state0 1 = 1
   \<and> tensors (fst (style_transfer stylist0 0 2 style_state0)) 0 = 0.785
   \<and> tensors style_state0 0 = 0.5
   \<and> (0::nat) \<notin> set (parameters trainer1)
   \<and> store (fst (train trainer1 dataloader0 1 train_state0)) 0 = store train_state0 0
   \<and> store (fst (train trainer1 dataloader0 1 train_state0)) 7 = - 2
   \<and> store train_state0 7 = 0"
proof -
  have p: "(0::nat) \<notin> set (parameters trainer1)" by (simp add: trainer1_def)
  have e1: "tensors (fst (style_transfer stylist0 0 2 style_state0)) 0 = 0.785"
    unfolding style_example_run by simp
  have e2: "store (fst (train trainer1 dataloader0 1 train_state0)) 7 = - 2"
    unfolding train_example_run1 by simp
  have i: "tensors style_state0 1 = 1" "tensors style_state0 0 = 0.5"
    "store train_state0 7 = 0"
    by (simp_all add: style_state0_def train_state0_def)
  from optimizers_change_only_their_tensors[of 1 0 stylist0 2 style_state0 0 trainer1
      dataloader0 1 train_state0] p
  have "tensors (fst (style_transfer stylist0 0 2 style_state0)) 1 = tensors style_state0 1"
    and "store (fst (train trainer1 dataloader0 1 train_state0)) 0 = store train_state0 0"
    by simp_all
  with p e1 e2 i show ?thesis by simp
qed


section \<open>Theorems: the operations with placeholders\<close>

lemma PhotoMapDataset_getitem_loaded:
  assumes "getitem (samples self) index = Inr (path, cls)"
    and "loader self path = Inr raw"
    and "(case transform self of None \<Rightarrow> Inr raw | Some t \<Rightarrow> t raw) = Inr sample"
  shows "PhotoMapDataset_getitem split self index = split sample"
  using assms
  by (simp add: PhotoMapDataset_getitem_def split: sum.splits prod.splits)

lemma PhotoMapDataset_getitem_shipped:
  "\<exists>e. PhotoMapDataset_getitem (\<lambda>sample. your_code_here) self index = Inl e"
  by (simp add: PhotoMapDataset_getitem_def your_code_here_def split: sum.splits prod.splits)

text \<open>
  Claim C1, amended. For every valid index, \<^verbatim>\<open>PhotoMapDataset.__getitem__\<close> loads the
  sample at that index and applies the transform when one is set; what it returns is the
  pair that the code at the placeholder \<^verbatim>\<open>photo_image, map_image = # your code here\<close>
  computes from the transformed sample. The template does not fix that code: as shipped
  nothing stands there and no pair is returned.
\<close>

theorem PhotoMapDataset_getitem_split:
  assumes "getitem (samples self) index = Inr (path, cls)"
    and "loader self path = Inr raw"
    and "(case transform self of None \<Rightarrow> Inr raw | Some t \<Rightarrow> t raw) = Inr sample"
  shows "PhotoMapDataset_getitem split self index = split sample
     \<and> PhotoMapDataset_getitem (\<lambda>sample. your_code_here) self index = Inl SyntaxError"
  using PhotoMapDataset_getitem_loaded[OF assms]
  by (simp add: your_code_here_def)

lemma folder0_facts:
  "getitem (samples folder0) 0 = Inr (''maps/train/0/1.jpg'', 0)"
  "loader folder0 ''maps/train/0/1.jpg'' = Inr side_by_side0"
  "(case transform folder0 of None \<Rightarrow> Inr side_by_side0 | Some t \<Rightarrow> t side_by_side0)
     = Inr [[[0, 1]], [[2, 3]], [[4, 5]]]"
  by (simp_all add: folder0_def getitem_def side_by_side0_def)

lemma halves0:
  "spec_left_half [[[0, 1]], [[2, 3]], [[4, 5]]] = [[[0]], [[2]], [[4]]]"
  "spec_right_half [[[0, 1]], [[2, 3]], [[4, 5]]] = [[[1]], [[3]], [[5]]]"
  by (simp_all add: spec_left_half_def spec_right_half_def)

theorem PhotoMapDataset_getitem_split_witness:
  "getitem (samples folder0) 0 = Inr (''maps/train/0/1.jpg'', 0)
   \<and> loader folder0 ''maps/train/0/1.jpg'' = Inr side_by_side0
   \<and> PhotoMapDataset_getitem (\<lambda>s. Inr (spec_left_half s, spec_right_half s)) folder0 0
        = Inr ([[[0]], [[2]], [[4]]], [[[1]], [[3]], [[5]]])
   \<and> PhotoMapDataset_getitem (\<lambda>sample. your_code_here) folder0 0 = Inl SyntaxError"
  using PhotoMapDataset_getitem_split[OF folder0_facts,
      of "\<lambda>s. Inr (spec_left_half s, spec_right_half s)"]
    folder0_facts(1,2) halves0
  by simp

lemma getitem_folder0_shipped:
  "PhotoMapDataset_getitem (\<lambda>sample. your_code_here) folder0 0 = Inl SyntaxError"
  using PhotoMapDataset_getitem_loaded[OF folder0_facts, of "\<lambda>sample. your_code_here"]
  by (simp add: your_code_here_def)

text \<open>
  As shipped the method does not return the left and right halves: on the folder of one
  side-by-side image its value at index 0 is not the pair of halves of the transformed
  image.
\<close>

theorem PhotoMapDataset_getitem_counterexample:
  "PhotoMapDataset_getitem (\<lambda>sample. your_code_here) folder0 0
     \<noteq> Inr (spec_left_half [[[0, 1]], [[2, 3]], [[4, 5]]],
            spec_right_half [[[0, 1]], [[2, 3]], [[4, 5]]])"
  by (simp add: getitem_folder0_shipped)

lemma gram_matrix_bmm: "gram_matrix bmm_transpose f = Inr (spec_gram_matrix f)"
  by (simp add: gram_matrix_def bmm_transpose_def spec_gram_matrix_def view_b_c_wh_def
        o_def split: prod.splits)

lemma gram_matrix_shipped: "gram_matrix (\<lambda>sz flat. your_code_here) f = Inl SyntaxError"
  by (simp add: gram_matrix_def your_code_here_def split: prod.splits)

text \<open>
  Claim C2, amended. \<^verbatim>\<open>StyleLoss.forward\<close> is the mean-squared error between
  \<^verbatim>\<open>gram_matrix(pred_features)\<close> and \<^verbatim>\<open>gram_matrix(target_features)\<close>. \<^verbatim>\<open>gram_matrix\<close>
  unpacks the size \<open>(b, c, h, w)\<close>, flattens the spatial axes and leaves the product to
  the placeholder \<^verbatim>\<open>gram_matrix = ## your code here\<close>: when the code there multiplies the
  flattened features with their transpose, the result is the \<open>(b, c, c)\<close> tensor of
  pairwise inner products of the flattened channels and \<^verbatim>\<open>forward\<close> is the error between
  the two Gram matrices; as shipped nothing stands there and \<^verbatim>\<open>forward\<close> has no value.
\<close>

theorem StyleLoss_forward_mse_of_gram:
  "(gram_matrix code pred_features = Inr pg \<and> gram_matrix code target_features = Inr tg
      \<longrightarrow> StyleLoss_forward code pred_features target_features = Inr (mse_loss pg tg))
   \<and> StyleLoss_forward bmm_transpose pred_features target_features
        = Inr (mse_loss (spec_gram_matrix pred_features) (spec_gram_matrix target_features))
   \<and> StyleLoss_forward (\<lambda>sz flat. your_code_here) pred_features target_features
        = Inl SyntaxError"
  by (simp add: StyleLoss_forward_def gram_matrix_bmm gram_matrix_shipped)

lemma gram0:
  "spec_gram_matrix pred_features0 = [[[5, 11], [11, 25]]]"
  "spec_gram_matrix target_features0 = [[[1, 0], [0, 1]]]"
  by (simp_all add: spec_gram_matrix_def pred_features0_def target_features0_def dot_def)

lemma mse0: "mse_loss [[[5, 11], [11, 25]]] [[[1, 0], [0, 1]]] = 208.5"
  by (simp add: mse_loss_def)

theorem StyleLoss_forward_mse_of_gram_witness:
  "gram_matrix bmm_transpose pred_features0 = Inr [[[5, 11], [11, 25]]]
   \<and> gram_matrix bmm_transpose target_features0 = Inr [[[1, 0], [0, 1]]]
   \<and> StyleLoss_forward bmm_transpose pred_features0 target_features0 = Inr 208.5"
  using StyleLoss_forward_mse_of_gram[of bmm_transpose pred_features0 "[[[5, 11], [11, 25]]]"
      target_features0 "[[[1, 0], [0, 1]]]"]
  by (simp add: gram_matrix_bmm gram0 mse0)

text \<open>
  As shipped \<^verbatim>\<open>forward\<close> is not the mean-squared error between the Gram matrices of the
  two feature maps.
\<close>

theorem StyleLoss_forward_counterexample:
  "StyleLoss_forward (\<lambda>sz flat. your_code_here) pred_features0 target_features0
     \<noteq> Inr (mse_loss (spec_gram_matrix pred_features0) (spec_gram_matrix target_features0))"
  by (simp add: StyleLoss_forward_def gram_matrix_shipped)

lemma accumulate_shipped:
  "accumulate (\<lambda>layer. your_code_here) (layer # layers) loss = Inl SyntaxError"
  by (simp add: your_code_here_def)

text \<open>
  Claim C7, amended. Each student-task operation has a \<^verbatim>\<open># your code here\<close> placeholder
  in place of its implementation. As shipped, \<^verbatim>\<open>PhotoMapDataset.__getitem__\<close>,
  \<^verbatim>\<open>Normalization.forward\<close>, \<^verbatim>\<open>ContentLoss.forward\<close>, \<^verbatim>\<open>StyleLoss.gram_matrix\<close> and the
  loss accumulation of the transfer loop lack the right-hand side of an assignment and
  have no value, and the transfer cell ends at its first such placeholder; \<^verbatim>\<open>UnetDownBlock.forward\<close> and \<^verbatim>\<open>Vgg16.forward\<close> read a name that the
  placeholder was to bind and raise \<^verbatim>\<open>NameError\<close>; \<^verbatim>\<open>UnetUpBlock.forward\<close> and
  \<^verbatim>\<open>Unet.forward\<close> return their input \<open>x\<close> unchanged.
\<close>

theorem template_operations_as_shipped:
  "(\<exists>e. PhotoMapDataset_getitem (\<lambda>sample. your_code_here) self index = Inl e)
   \<and> UnetDownBlock_forward comment x1 = Inl (NameError ''x_before_pooling'')
   \<and> UnetUpBlock_forward comment x2 x_bridge = Inr x2
   \<and> Unet_forward comment x3 = Inr x3
   \<and> Vgg16_forward (\<lambda>self. comment) vgg x4 = Inl (NameError ''x_relu1_2'')
   \<and> Normalization_forward (\<lambda>mean std x. your_code_here) nrm x5 = Inl SyntaxError
   \<and> ContentLoss_forward (\<lambda>p t. your_code_here) pred_features target_features
        = Inl SyntaxError
   \<and> gram_matrix (\<lambda>sz flat. your_code_here) f = Inl SyntaxError
   \<and> accumulate (\<lambda>layer. your_code_here) content_loss_layers 0 = Inl SyntaxError
   \<and> accumulate (\<lambda>layer. your_code_here) style_loss_layers 0 = Inl SyntaxError
   \<and> snd (style_transfer (sty\<lparr>content_image_features_code := (\<lambda>st. your_code_here)\<rparr>)
            input_image n_epochs s) = Some SyntaxError"
proof (intro conjI)
  show "\<exists>e. PhotoMapDataset_getitem (\<lambda>sample. your_code_here) self index = Inl e"
    by (rule PhotoMapDataset_getitem_shipped)
  show "UnetDownBlock_forward comment x1 = Inl (NameError ''x_before_pooling'')"
    by (simp add: UnetDownBlock_forward_def comment_def local_var_def)
  show "UnetUpBlock_forward comment x2 x_bridge = Inr x2"
    by (simp add: UnetUpBlock_forward_def comment_def local_var_def)
  show "Unet_forward comment x3 = Inr x3"
    by (simp add: Unet_forward_def comment_def local_var_def)
  show "Vgg16_forward (\<lambda>self. comment) vgg x4 = Inl (NameError ''x_relu1_2'')"
    by (rule Vgg16_forward_comment)
  show "Normalization_forward (\<lambda>mean std x. your_code_here) nrm x5 = Inl SyntaxError"
    by (simp add: Normalization_forward_def your_code_here_def)
  show "ContentLoss_forward (\<lambda>p t. your_code_here) pred_features target_features
          = Inl SyntaxError"
    by (simp add: ContentLoss_forward_def your_code_here_def)
  show "gram_matrix (\<lambda>sz flat. your_code_here) f = Inl SyntaxError"
    by (rule gram_matrix_shipped)
  show "accumulate (\<lambda>layer. your_code_here) content_loss_layers 0 = Inl SyntaxError"
    unfolding content_loss_layers_def by (rule accumulate_shipped)
  show "accumulate (\<lambda>layer. your_code_here) style_loss_layers 0 = Inl SyntaxError"
    unfolding style_loss_layers_def by (rule accumulate_shipped)
  show "snd (style_transfer (sty\<lparr>content_image_features_code := (\<lambda>st. your_code_here)\<rparr>)
          input_image n_epochs s) = Some SyntaxError"
    by (simp add: style_transfer_def your_code_here_def)
qed

text \<open>
  Two of the operations do compute a result as shipped: \<^verbatim>\<open>Unet.forward\<close> and
  \<^verbatim>\<open>UnetUpBlock.forward\<close> return the tensor they are given.
\<close>

theorem Unet_forward_counterexample:
  "Unet_forward comment side_by_side0 = Inr side_by_side0
   \<and> UnetUpBlock_forward comment side_by_side0 image0 = Inr side_by_side0"
  by (simp add: Unet_forward_def UnetUpBlock_forward_def comment_def local_var_def)

end
